theory Spec2Isabelle
  imports Complex_Main "HOL-Library.Word"
begin

section \<open>JavaScript strings\<close>

text \<open>
  A JavaScript string is a sequence of UTF-16 code units. \<open>str\<close> embeds an
  ASCII literal of the source.
\<close>

type_synonym jschar = "16 word"
type_synonym jsstring = "jschar list"

definition str :: "string \<Rightarrow> jsstring" where
  "str s = map of_char s"

text \<open>
  The characters that \<^verbatim>\<open>String.prototype.trim\<close> strips and that the
  regular expression class \<^verbatim>\<open>\s\<close> matches: ECMAScript's WhiteSpace and
  LineTerminator productions.
\<close>

definition is_js_space :: "jschar \<Rightarrow> bool" where
  "is_js_space c =
     (c \<in> set [0x09, 0x0A, 0x0B, 0x0C, 0x0D, 0x20, 0xA0, 0x1680,
                0x2028, 0x2029, 0x202F, 0x205F, 0x3000, 0xFEFF]
      \<or> (0x2000 \<le> c \<and> c \<le> 0x200A))"

definition trim :: "jsstring \<Rightarrow> jsstring" where
  "trim s = rev (dropWhile is_js_space (rev (dropWhile is_js_space s)))"

text \<open>\<^verbatim>\<open>.replace(/^```json\s*/, '')\<close>\<close>

definition strip_fence_json :: "jsstring \<Rightarrow> jsstring" where
  "strip_fence_json s =
     (if take 7 s = str ''```json'' then dropWhile is_js_space (drop 7 s) else s)"

text \<open>\<^verbatim>\<open>.replace(/^```\s*/, '')\<close>\<close>

definition strip_fence_open :: "jsstring \<Rightarrow> jsstring" where
  "strip_fence_open s =
     (if take 3 s = str ''```'' then dropWhile is_js_space (drop 3 s) else s)"

text \<open>
  \<^verbatim>\<open>.replace(/\s*```$/, '')\<close>: the leftmost match starts at the first
  character of the whitespace run in front of the closing fence.
\<close>

definition strip_fence_close :: "jsstring \<Rightarrow> jsstring" where
  "strip_fence_close s =
     (if take 3 (rev s) = str ''```''
      then rev (dropWhile is_js_space (drop 3 (rev s))) else s)"

section \<open>JSON values and \<^verbatim>\<open>JSON.parse\<close>\<close>

datatype json =
    JNull
  | JBool bool
  | JNumber rat
  | JString jsstring
  | JArray "json list"
  | JObject "(jsstring \<times> json) list"

datatype token =
    TLBrace | TRBrace | TLBracket | TRBracket | TColon | TComma
  | TString jsstring
  | TNumber rat
  | TTrue | TFalse | TNull

definition is_json_space :: "jschar \<Rightarrow> bool" where
  "is_json_space c = (c = 0x20 \<or> c = 0x09 \<or> c = 0x0A \<or> c = 0x0D)"

definition is_digit :: "jschar \<Rightarrow> bool" where
  "is_digit c = (0x30 \<le> c \<and> c \<le> 0x39)"

definition hex_val :: "jschar \<Rightarrow> jschar option" where
  "hex_val c =
     (if 0x30 \<le> c \<and> c \<le> 0x39 then Some (c - 0x30)
      else if 0x41 \<le> c \<and> c \<le> 0x46 then Some (c - 0x37)
      else if 0x61 \<le> c \<and> c \<le> 0x66 then Some (c - 0x57)
      else None)"

definition escape_char :: "jschar \<Rightarrow> jschar option" where
  "escape_char e =
     (if e = 0x22 then Some 0x22
      else if e = 0x5C then Some 0x5C
      else if e = 0x2F then Some 0x2F
      else if e = 0x62 then Some 0x08
      else if e = 0x66 then Some 0x0C
      else if e = 0x6E then Some 0x0A
      else if e = 0x72 then Some 0x0D
      else if e = 0x74 then Some 0x09
      else None)"

definition unicode_escape :: "jsstring \<Rightarrow> jschar option" where
  "unicode_escape hs =
     (case map hex_val hs of
        [Some a, Some b, Some c, Some d] \<Rightarrow> Some (a * 0x1000 + b * 0x100 + c * 0x10 + d)
      | _ \<Rightarrow> None)"

text \<open>The rest of a string literal, after its opening quote: the string's value and the input after
  the closing quote.\<close>

fun lex_string :: "jsstring \<Rightarrow> (jsstring \<times> jsstring) option" where
  "lex_string [] = None"
| "lex_string (c # cs) =
     (if c = 0x22 then Some ([], cs)
      else if c = 0x5C then
        (case cs of
           [] \<Rightarrow> None
         | e # cs' \<Rightarrow>
             if e = 0x75 then
               (case unicode_escape (take 4 cs') of
                  None \<Rightarrow> None
                | Some u \<Rightarrow> map_option (\<lambda>(s, r). (u # s, r)) (lex_string (drop 4 cs')))
             else
               (case escape_char e of
                  None \<Rightarrow> None
                | Some x \<Rightarrow> map_option (\<lambda>(s, r). (x # s, r)) (lex_string cs')))
      else if c < 0x20 then None
      else map_option (\<lambda>(s, r). (c # s, r)) (lex_string cs))"

definition digits_val :: "jsstring \<Rightarrow> nat" where
  "digits_val ds = foldl (\<lambda>n d. 10 * n + unat (d - 0x30)) 0 ds"

definition lex_int :: "jsstring \<Rightarrow> (jsstring \<times> jsstring) option" where
  "lex_int cs =
     (case cs of
        [] \<Rightarrow> None
      | c # r \<Rightarrow>
          if c = 0x30 then Some ([c], r)
          else if is_digit c then Some (takeWhile is_digit cs, dropWhile is_digit cs)
          else None)"

definition lex_frac :: "jsstring \<Rightarrow> (jsstring \<times> jsstring) option" where
  "lex_frac cs =
     (case cs of
        [] \<Rightarrow> Some ([], cs)
      | c # r \<Rightarrow>
          if c = 0x2E then
            (if takeWhile is_digit r = [] then None
             else Some (takeWhile is_digit r, dropWhile is_digit r))
          else Some ([], cs))"

definition lex_sign :: "jsstring \<Rightarrow> bool \<times> jsstring" where
  "lex_sign cs =
     (case cs of
        [] \<Rightarrow> (False, cs)
      | c # r \<Rightarrow> if c = 0x2D then (True, r) else if c = 0x2B then (False, r) else (False, cs))"

definition lex_exp :: "jsstring \<Rightarrow> (int \<times> jsstring) option" where
  "lex_exp cs =
     (case cs of
        [] \<Rightarrow> Some (0, cs)
      | c # r \<Rightarrow>
          if c = 0x65 \<or> c = 0x45 then
            (case lex_sign r of
               (neg, r') \<Rightarrow>
                 if takeWhile is_digit r' = [] then None
                 else Some ((if neg then - 1 else 1) * int (digits_val (takeWhile is_digit r')),
                            dropWhile is_digit r'))
          else Some (0, cs))"

definition number_value :: "bool \<Rightarrow> jsstring \<Rightarrow> jsstring \<Rightarrow> int \<Rightarrow> rat" where
  "number_value neg ds fs e =
     (let m = of_nat (digits_val ds) + of_nat (digits_val fs) / 10 ^ length fs;
          a = (if 0 \<le> e then m * 10 ^ nat e else m / 10 ^ nat (- e))
      in if neg then - a else a)"

definition lex_number :: "jsstring \<Rightarrow> (rat \<times> jsstring) option" where
  "lex_number cs =
     (case cs of
        [] \<Rightarrow> None
      | c # r \<Rightarrow>
          (case lex_int (if c = 0x2D then r else cs) of
             None \<Rightarrow> None
           | Some (ds, r1) \<Rightarrow>
               (case lex_frac r1 of
                  None \<Rightarrow> None
                | Some (fs, r2) \<Rightarrow>
                    (case lex_exp r2 of
                       None \<Rightarrow> None
                     | Some (e, r3) \<Rightarrow> Some (number_value (c = 0x2D) ds fs e, r3)))))"

function tokenize :: "jsstring \<Rightarrow> token list option" where
  "tokenize [] = Some []"
| "tokenize (c # cs) =
     (if is_json_space c then tokenize cs
      else if c = 0x7B then map_option ((#) TLBrace) (tokenize cs)
      else if c = 0x7D then map_option ((#) TRBrace) (tokenize cs)
      else if c = 0x5B then map_option ((#) TLBracket) (tokenize cs)
      else if c = 0x5D then map_option ((#) TRBracket) (tokenize cs)
      else if c = 0x3A then map_option ((#) TColon) (tokenize cs)
      else if c = 0x2C then map_option ((#) TComma) (tokenize cs)
      else if c = 0x22 then
        (case lex_string cs of
           None \<Rightarrow> None
         | Some (s, rest) \<Rightarrow> map_option ((#) (TString s)) (tokenize rest))
      else if c = 0x2D \<or> is_digit c then
        (case lex_number (c # cs) of
           None \<Rightarrow> None
         | Some (q, rest) \<Rightarrow> map_option ((#) (TNumber q)) (tokenize rest))
      else if take 4 (c # cs) = str ''null'' then
        map_option ((#) TNull) (tokenize (drop 3 cs))
      else if take 4 (c # cs) = str ''true'' then
        map_option ((#) TTrue) (tokenize (drop 3 cs))
      else if take 5 (c # cs) = str ''false'' then
        map_option ((#) TFalse) (tokenize (drop 4 cs))
      else None)"
  by pat_completeness auto
termination
proof -
  have string_shorter: "length r < length cs" if "lex_string cs = Some (s, r)" for cs s r
    using that
  proof (induction cs arbitrary: s r rule: lex_string.induct)
    case 1
    then show ?case by simp
  next
    case (2 c cs)
    then show ?case
      by (fastforce split: if_splits list.splits option.splits)
  qed
  have int_shorter: "length r < length cs" if "lex_int cs = Some (ds, r)" for cs ds r
    using that
    by (auto simp: lex_int_def split: list.splits if_splits
             intro: le_imp_less_Suc length_dropWhile_le)
  have frac_shorter: "length r \<le> length cs" if "lex_frac cs = Some (fs, r)" for cs fs r
    using that
    by (auto simp: lex_frac_def split: list.splits if_splits
             intro: le_SucI length_dropWhile_le)
  have sign_shorter: "length r \<le> length cs" if "lex_sign cs = (neg, r)" for cs neg r
    using that by (auto simp: lex_sign_def split: list.splits if_splits)
  have exp_shorter: "length r \<le> length cs" if "lex_exp cs = Some (e, r)" for cs e r
    using that
    by (auto simp: lex_exp_def split: list.splits if_splits prod.splits
             dest!: sign_shorter intro: le_SucI order_trans [OF length_dropWhile_le])
  have number_shorter: "length r < length cs" if "lex_number cs = Some (q, r)" for cs q r
    using that
    by (auto simp: lex_number_def split: list.splits if_splits option.splits
             dest!: int_shorter frac_shorter exp_shorter)
  show ?thesis
    by (relation "measure length") (auto dest: string_shorter number_shorter)
qed


text \<open>
  Storing a member of an object: a repeated key keeps its place and takes the later value.
\<close>

primrec obj_put :: "jsstring \<Rightarrow> json \<Rightarrow> (jsstring \<times> json) list \<Rightarrow> (jsstring \<times> json) list" where
  "obj_put k v [] = [(k, v)]"
| "obj_put k v (m # ms) = (if fst m = k then (k, v) # ms else m # obj_put k v ms)"

text \<open>
  The grammar of JSON over the tokens, read one token at a time with an explicit stack of
  the arrays and objects that are still open. The mode says what may come next.
\<close>

datatype frame =
    InArray "json list"
  | InObject "(jsstring \<times> json) list"
  | InMember "(jsstring \<times> json) list" jsstring

datatype pmode =
    NeedValue
  | NeedValueOrClose
  | NeedKey
  | NeedKeyOrClose
  | NeedColon jsstring
  | Have json

definition value_start :: "frame list \<Rightarrow> token \<Rightarrow> (pmode \<times> frame list) option" where
  "value_start st t =
     (case t of
        TString s \<Rightarrow> Some (Have (JString s), st)
      | TNumber q \<Rightarrow> Some (Have (JNumber q), st)
      | TTrue \<Rightarrow> Some (Have (JBool True), st)
      | TFalse \<Rightarrow> Some (Have (JBool False), st)
      | TNull \<Rightarrow> Some (Have JNull, st)
      | TLBracket \<Rightarrow> Some (NeedValueOrClose, InArray [] # st)
      | TLBrace \<Rightarrow> Some (NeedKeyOrClose, InObject [] # st)
      | _ \<Rightarrow> None)"

definition key_start :: "frame list \<Rightarrow> token \<Rightarrow> (pmode \<times> frame list) option" where
  "key_start st t = (case t of TString k \<Rightarrow> Some (NeedColon k, st) | _ \<Rightarrow> None)"

definition after_value :: "json \<Rightarrow> frame list \<Rightarrow> token \<Rightarrow> (pmode \<times> frame list) option" where
  "after_value v st t =
     (case st of
        InArray vs # st' \<Rightarrow>
          (case t of
             TComma \<Rightarrow> Some (NeedValue, InArray (vs @ [v]) # st')
           | TRBracket \<Rightarrow> Some (Have (JArray (vs @ [v])), st')
           | _ \<Rightarrow> None)
      | InMember ms k # st' \<Rightarrow>
          (case t of
             TComma \<Rightarrow> Some (NeedKey, InObject (obj_put k v ms) # st')
           | TRBrace \<Rightarrow> Some (Have (JObject (obj_put k v ms)), st')
           | _ \<Rightarrow> None)
      | _ \<Rightarrow> None)"

definition step :: "pmode \<times> frame list \<Rightarrow> token \<Rightarrow> (pmode \<times> frame list) option" where
  "step s t =
     (case s of
        (NeedValue, st) \<Rightarrow> value_start st t
      | (NeedValueOrClose, st) \<Rightarrow>
          (case (t, st) of
             (TRBracket, InArray vs # st') \<Rightarrow> Some (Have (JArray vs), st')
           | _ \<Rightarrow> value_start st t)
      | (NeedKey, st) \<Rightarrow> key_start st t
      | (NeedKeyOrClose, st) \<Rightarrow>
          (case (t, st) of
             (TRBrace, InObject ms # st') \<Rightarrow> Some (Have (JObject ms), st')
           | _ \<Rightarrow> key_start st t)
      | (NeedColon k, st) \<Rightarrow>
          (case (t, st) of
             (TColon, InObject ms # st') \<Rightarrow> Some (NeedValue, InMember ms k # st')
           | _ \<Rightarrow> None)
      | (Have v, st) \<Rightarrow> after_value v st t)"

fun run :: "pmode \<times> frame list \<Rightarrow> token list \<Rightarrow> (pmode \<times> frame list) option" where
  "run s [] = Some s"
| "run s (t # ts) = (case step s t of None \<Rightarrow> None | Some s' \<Rightarrow> run s' ts)"

definition parse_tokens :: "token list \<Rightarrow> json option" where
  "parse_tokens ts =
     (case run (NeedValue, []) ts of
        Some (Have v, []) \<Rightarrow> Some v
      | _ \<Rightarrow> None)"

text \<open>\<^verbatim>\<open>JSON.parse\<close>; \<open>None\<close> is the SyntaxError it throws.\<close>

definition JSON_parse :: "jsstring \<Rightarrow> json option" where
  "JSON_parse s = (case tokenize s of None \<Rightarrow> None | Some ts \<Rightarrow> parse_tokens ts)"

section \<open>The JavaScript operations the handlers use\<close>

text \<open>
  The exceptions: those that the language and the platform raise here, the DOM's
  IndexSizeError, and \<^verbatim>\<open>new Error(v)\<close>, whose message is the value \<open>v\<close>
  as a string.
\<close>

datatype js_error = SyntaxError | TypeError | RangeError | IndexSizeError | Error json

text \<open>
  A value that may be \<^verbatim>\<open>undefined\<close> is a \<open>json option\<close>, \<open>None\<close> for
  \<^verbatim>\<open>undefined\<close>.

  Reading a property \<^verbatim>\<open>v.k\<close>: a TypeError on \<^verbatim>\<open>null\<close>, the member of an
  object, and \<^verbatim>\<open>undefined\<close> on every other value. The source reads only names
  that no built-in prototype defines (\<^verbatim>\<open>translation\<close>, \<^verbatim>\<open>summary\<close>,
  \<^verbatim>\<open>points\<close>, \<^verbatim>\<open>error\<close>, \<^verbatim>\<open>text\<close>, \<^verbatim>\<open>model\<close>, ...).
\<close>

definition own_member :: "json \<Rightarrow> jsstring \<Rightarrow> json option" where
  "own_member v k = (case v of JObject ms \<Rightarrow> map_of ms k | _ \<Rightarrow> None)"

definition get_prop :: "json \<Rightarrow> jsstring \<Rightarrow> js_error + json option" where
  "get_prop v k = (case v of JNull \<Rightarrow> Inl TypeError | _ \<Rightarrow> Inr (own_member v k))"

text \<open>\<^verbatim>\<open>Array.isArray\<close>\<close>

definition isArray :: "json option \<Rightarrow> bool" where
  "isArray v = (case v of Some (JArray xs) \<Rightarrow> True | _ \<Rightarrow> False)"

text \<open>\<^verbatim>\<open>typeof p === 'string'\<close>\<close>

definition is_string :: "json \<Rightarrow> bool" where
  "is_string v = (case v of JString s \<Rightarrow> True | _ \<Rightarrow> False)"

text \<open>
  The truth value of a condition. A number is false when its Number value is zero: the
  literal's value is zero or rounds to zero as a double (it is at most half of the least
  subnormal, \<open>2\<^sup>-\<^sup>1\<^sup>0\<^sup>7\<^sup>5\<close>).
\<close>

definition truthy :: "json \<Rightarrow> bool" where
  "truthy v =
     (case v of
        JNull \<Rightarrow> False
      | JBool b \<Rightarrow> b
      | JNumber q \<Rightarrow> 1 < 2 ^ 1075 * \<bar>q\<bar>
      | JString s \<Rightarrow> s \<noteq> []
      | JArray xs \<Rightarrow> True
      | JObject ms \<Rightarrow> True)"

definition truthy_opt :: "json option \<Rightarrow> bool" where
  "truthy_opt v = (case v of None \<Rightarrow> False | Some x \<Rightarrow> truthy x)"

text \<open>\<^verbatim>\<open>v || d\<close>\<close>

definition or_else :: "json option \<Rightarrow> json \<Rightarrow> json" where
  "or_else v d = (case v of None \<Rightarrow> d | Some x \<Rightarrow> if truthy x then x else d)"

text \<open>
  Writing a value into a string (a template literal, the replacement argument of
  \<^verbatim>\<open>String.prototype.replace\<close>, the message of \<^verbatim>\<open>new Error\<close>)
  converts it with ToString, which throws a TypeError on an object that has a member named
  \<^verbatim>\<open>toString\<close> (it hides the inherited method and a JSON value is never
  callable) and on an array with such an element. The string itself is not modelled, only
  whether the conversion returns.
\<close>

fun stringifiable :: "json \<Rightarrow> bool" where
  "stringifiable (JObject ms) = (map_of ms (str ''toString'') = None)"
| "stringifiable (JArray xs) = list_all stringifiable xs"
| "stringifiable v = True"

text \<open>\<^verbatim>\<open>value[0]\<close> on an array\<close>

definition first_element :: "json list \<Rightarrow> json option" where
  "first_element xs = (case xs of [] \<Rightarrow> None | x # r \<Rightarrow> Some x)"

section \<open>The response normalizer\<close>

text \<open>
  \<^verbatim>\<open>parseTranslationResponse\<close> (translate/route.ts) and
  \<^verbatim>\<open>parseExplanationResponse\<close> (explain/route.ts) are the same function up to the
  name of the primary field, \<^verbatim>\<open>translation\<close> or \<^verbatim>\<open>summary\<close>. Each of
  the three \<^verbatim>\<open>try\<close> blocks is a computation that throws (\<open>Inl\<close>), returns
  from the function (\<open>Inr (Some v)\<close>) or falls through (\<open>Inr None\<close>).
\<close>

text \<open>
  The first and the second block:
  \<^verbatim>\<open>const parsed = JSON.parse(text);
  if (parsed.translation !== undefined && Array.isArray(parsed.points)) return parsed;\<close>
\<close>

definition direct_parse :: "jsstring \<Rightarrow> jsstring \<Rightarrow> js_error + json option" where
  "direct_parse field text =
     (case JSON_parse text of
        None \<Rightarrow> Inl SyntaxError
      | Some parsed \<Rightarrow>
          (case get_prop parsed field of
             Inl e \<Rightarrow> Inl e
           | Inr primary \<Rightarrow>
               if primary = None then Inr None
               else
                 (case get_prop parsed (str ''points'') of
                    Inl e \<Rightarrow> Inl e
                  | Inr pts \<Rightarrow> if isArray pts then Inr (Some parsed) else Inr None)))"

text \<open>
  The third block:
  \<^verbatim>\<open>const value = JSON.parse(cleaned);
  const obj = Array.isArray(value) ? value[0] : value;
  if (obj) {
    const translation = typeof obj.translation === 'string' ? obj.translation : '';
    const points = Array.isArray(obj.points)
      ? obj.points.filter((p) => typeof p === 'string') : [];
    return { translation, points };
  }\<close>
\<close>

definition candidate :: "json \<Rightarrow> json option" where
  "candidate v = (case v of JArray xs \<Rightarrow> first_element xs | _ \<Rightarrow> Some v)"

definition string_or_empty :: "json option \<Rightarrow> jsstring" where
  "string_or_empty v = (case v of Some (JString s) \<Rightarrow> s | _ \<Rightarrow> [])"

definition string_elements :: "json option \<Rightarrow> json list" where
  "string_elements v = (case v of Some (JArray ps) \<Rightarrow> filter is_string ps | _ \<Rightarrow> [])"

definition result_object :: "jsstring \<Rightarrow> jsstring \<Rightarrow> json list \<Rightarrow> json" where
  "result_object field primary pts =
     JObject [(field, JString primary), (str ''points'', JArray pts)]"

definition flexible_parse :: "jsstring \<Rightarrow> jsstring \<Rightarrow> js_error + json option" where
  "flexible_parse field cleaned =
     (case JSON_parse cleaned of
        None \<Rightarrow> Inl SyntaxError
      | Some v \<Rightarrow>
          (case candidate v of
             None \<Rightarrow> Inr None
           | Some obj \<Rightarrow>
               if truthy obj then
                 (case get_prop obj field of
                    Inl e \<Rightarrow> Inl e
                  | Inr primary \<Rightarrow>
                      (case get_prop obj (str ''points'') of
                         Inl e \<Rightarrow> Inl e
                       | Inr pts \<Rightarrow>
                           Inr (Some (result_object field (string_or_empty primary)
                                        (string_elements pts)))))
               else Inr None))"

text \<open>\<^verbatim>\<open>try { ... } catch { }\<close>: an exception is dropped and the function goes on.\<close>

definition try_catch :: "js_error + 'a option \<Rightarrow> 'a option" where
  "try_catch r = (case r of Inl e \<Rightarrow> None | Inr x \<Rightarrow> x)"

text \<open>
  \<^verbatim>\<open>text.trim().replace(/^```json\s*/, '').replace(/^```\s*/, '').replace(/\s*```$/, '').trim()\<close>
\<close>

definition cleaned :: "jsstring \<Rightarrow> jsstring" where
  "cleaned text = trim (strip_fence_close (strip_fence_open (strip_fence_json (trim text))))"

definition parseResponse :: "jsstring \<Rightarrow> jsstring \<Rightarrow> js_error + json" where
  "parseResponse field text =
     (case try_catch (direct_parse field text) of
        Some parsed \<Rightarrow> Inr parsed
      | None \<Rightarrow>
          (case try_catch (direct_parse field (cleaned text)) of
             Some parsed \<Rightarrow> Inr parsed
           | None \<Rightarrow>
               (case try_catch (flexible_parse field (cleaned text)) of
                  Some r \<Rightarrow> Inr r
                | None \<Rightarrow> Inr (result_object field text []))))"

definition parseTranslationResponse :: "jsstring \<Rightarrow> js_error + json" where
  "parseTranslationResponse text = parseResponse (str ''translation'') text"

definition parseExplanationResponse :: "jsstring \<Rightarrow> js_error + json" where
  "parseExplanationResponse text = parseResponse (str ''summary'') text"

text \<open>
  The declared result types \<^verbatim>\<open>TranslationResponse\<close> and
  \<^verbatim>\<open>ExplanationResponse\<close>: the primary field is a string and \<^verbatim>\<open>points\<close>
  is an array of strings.
\<close>

definition well_formed :: "jsstring \<Rightarrow> json \<Rightarrow> bool" where
  "well_formed field v =
     (case v of
        JObject ms \<Rightarrow>
          (case (map_of ms field, map_of ms (str ''points'')) of
             (Some (JString s), Some (JArray ps)) \<Rightarrow> list_all is_string ps
           | _ \<Rightarrow> False)
      | _ \<Rightarrow> False)"

section \<open>The backend handlers\<close>

text \<open>
  The two \<^verbatim>\<open>POST\<close> handlers (translate/route.ts, explain/route.ts) differ in the
  prompt, the system instruction and the normalizer they call.
\<close>

datatype operation = Translate | Explain

text \<open>
  What the handler sends upstream. The prompt template and the URL are filled with these
  values; how a value is written into the text is not modelled.
\<close>

record upstream_request =
  req_operation :: operation
  req_key :: jsstring
  req_model :: json
  req_text :: json
  req_context_before :: json
  req_context_after :: json

text \<open>
  The declared type \<^verbatim>\<open>GeminiResponse\<close> of a successful upstream body: the
  candidates, each with the texts of its content's parts, and the error's message.
\<close>

record gemini_response =
  candidates :: "jsstring list list option"
  error_message :: "jsstring option"

text \<open>
  The upstream response as the handler observes it: \<^verbatim>\<open>status\<close>,
  \<^verbatim>\<open>await response.text()\<close> and \<^verbatim>\<open>await response.json()\<close>;
  \<^verbatim>\<open>response.ok\<close> is a status from 200 to 299. Reading the body can fail.
\<close>

record upstream_response =
  up_status :: nat
  up_text :: "js_error + jsstring"
  up_json :: "js_error + gemini_response"

definition up_ok :: "upstream_response \<Rightarrow> bool" where
  "up_ok r = (200 \<le> up_status r \<and> up_status r \<le> 299)"

text \<open>
  The environment of a handler: \<^verbatim>\<open>process.env.GEMINI_API_KEY\<close> and
  \<^verbatim>\<open>fetch\<close>, which rejects or resolves to a response.
\<close>

record handler_env =
  GEMINI_API_KEY :: "jsstring option"
  upstream_fetch :: "upstream_request \<Rightarrow> js_error + upstream_response"

text \<open>
  The body of the handler's answer: \<^verbatim>\<open>{ error: message }\<close> with a message of
  the source, \<^verbatim>\<open>{ error: error.message }\<close> for a caught exception, or the
  normalized result.
\<close>

datatype response_body = ErrorMessage jsstring | ErrorCaught js_error | Normalized json

record handler_response =
  res_status :: nat
  res_body :: response_body

text \<open>A status code in decimal, as a template literal writes it.\<close>

function decimal :: "nat \<Rightarrow> jsstring" where
  "decimal n = (if n < 10 then [of_nat (48 + n)] else decimal (n div 10) @ [of_nat (48 + n mod 10)])"
  by pat_completeness auto
termination
  by (relation "measure id") auto

declare decimal.simps [simp del]

definition upstream_error_message :: "nat \<Rightarrow> jsstring \<Rightarrow> jsstring" where
  "upstream_error_message status errorText =
     (if status = 429 then str ''Rate limit exceeded. Please wait a moment and try again.''
      else if status = 401 \<or> status = 403 then
        str ''Invalid API key. Please check your Gemini API key in Settings.''
      else str ''API error ('' @ decimal status @ str ''): '' @ errorText)"

text \<open>\<^verbatim>\<open>data.candidates?.[0]?.content?.parts?.[0]?.text\<close>\<close>

definition result_text :: "gemini_response \<Rightarrow> jsstring option" where
  "result_text data =
     (case candidates data of
        None \<Rightarrow> None
      | Some [] \<Rightarrow> None
      | Some (parts # cs) \<Rightarrow> (case parts of [] \<Rightarrow> None | t # ts \<Rightarrow> Some t))"

definition normalizer :: "operation \<Rightarrow> jsstring \<Rightarrow> js_error + json" where
  "normalizer op text =
     (case op of
        Translate \<Rightarrow> parseTranslationResponse text
      | Explain \<Rightarrow> parseExplanationResponse text)"

definition key_missing :: "jsstring option \<Rightarrow> bool" where
  "key_missing k = (case k of None \<Rightarrow> True | Some s \<Rightarrow> s = [])"

text \<open>
  \<^verbatim>\<open>NextResponse.json(body, { status })\<close> builds the answer with the platform's
  Response constructor, which throws a RangeError on a status outside 200 to 599 and, as
  the answer has a body, a TypeError on a status that allows none (101, 103, 204, 205 and
  304).
\<close>

definition null_body_status :: "nat \<Rightarrow> bool" where
  "null_body_status status = (status \<in> set [101, 103, 204, 205, 304])"

definition NextResponse_json :: "nat \<Rightarrow> response_body \<Rightarrow> js_error + handler_response" where
  "NextResponse_json status body =
     (if status < 200 \<or> 599 < status then Inl RangeError
      else if null_body_status status then Inl TypeError
      else Inr \<lparr>res_status = status, res_body = body\<rparr>)"

text \<open>
  The \<^verbatim>\<open>try\<close> block of a handler from the point where \<^verbatim>\<open>fetch\<close> has
  resolved: the answer, or the exception that leaves the block.
\<close>

definition after_fetch :: "operation \<Rightarrow> upstream_response \<Rightarrow> js_error + handler_response" where
  "after_fetch op response =
     (if \<not> up_ok response then
        (case up_text response of
           Inl e \<Rightarrow> Inl e
         | Inr errorText \<Rightarrow>
             NextResponse_json (up_status response)
               (ErrorMessage (upstream_error_message (up_status response) errorText)))
      else
        (case up_json response of
           Inl e \<Rightarrow> Inl e
         | Inr data \<Rightarrow>
             (case error_message data of
                Some m \<Rightarrow> NextResponse_json 500 (ErrorMessage m)
              | None \<Rightarrow>
                  (case result_text data of
                     None \<Rightarrow> NextResponse_json 500 (ErrorMessage (str ''No response from API''))
                   | Some resultText \<Rightarrow>
                       if resultText = [] then
                         NextResponse_json 500 (ErrorMessage (str ''No response from API''))
                       else
                         (case normalizer op resultText of
                            Inl e \<Rightarrow> Inl e
                          | Inr parsed \<Rightarrow> NextResponse_json 200 (Normalized parsed))))))"

text \<open>
  The \<^verbatim>\<open>try\<close> block of a handler up to the call of \<^verbatim>\<open>fetch\<close>, on
  the outcome of \<^verbatim>\<open>await request.json()\<close>: an exception, an early answer, or
  the request to send upstream. Destructuring \<^verbatim>\<open>null\<close> throws; the prompt and
  the URL are built from the text, the two contexts and the model, in this order.
  \<open>early\<close> is \<^verbatim>\<open>return NextResponse.json(...)\<close> inside the block.
\<close>

definition early ::
  "js_error + handler_response \<Rightarrow> js_error + (handler_response + upstream_request)" where
  "early r = (case r of Inl e \<Rightarrow> Inl e | Inr response \<Rightarrow> Inr (Inl response))"

definition build_request :: "operation \<Rightarrow> jsstring \<Rightarrow> json \<Rightarrow> json \<Rightarrow> upstream_request" where
  "build_request op apiKey b text =
     \<lparr>req_operation = op,
      req_key = apiKey,
      req_model = or_else (own_member b (str ''model'')) (JString (str ''gemini-2.0-flash'')),
      req_text = text,
      req_context_before = or_else (own_member b (str ''contextBefore'')) (JString []),
      req_context_after = or_else (own_member b (str ''contextAfter'')) (JString [])\<rparr>"

definition before_fetch ::
  "operation \<Rightarrow> jsstring option \<Rightarrow> js_error + json \<Rightarrow>
     js_error + (handler_response + upstream_request)" where
  "before_fetch op apiKey request_json =
     (case request_json of
        Inl e \<Rightarrow> Inl e
      | Inr b \<Rightarrow>
          (case get_prop b (str ''text'') of
             Inl e \<Rightarrow> Inl e
           | Inr text \<Rightarrow>
               if key_missing apiKey then
                 early (NextResponse_json 500 (ErrorMessage
                   (str ''GEMINI_API_KEY is not configured. Please set it in .env.local'')))
               else if \<not> truthy_opt text then
                 early (NextResponse_json 400 (ErrorMessage (str ''Text required'')))
               else
                 (let req = build_request op (the apiKey) b (the text)
                  in if stringifiable (req_text req) \<and> stringifiable (req_context_before req)
                        \<and> stringifiable (req_context_after req) \<and> stringifiable (req_model req)
                     then Inr (Inr req)
                     else Inl TypeError)))"

text \<open>
  The whole \<^verbatim>\<open>try\<close> block: the answer or the exception that leaves the block, and
  the requests sent upstream.
\<close>

definition handler_try ::
  "operation \<Rightarrow> handler_env \<Rightarrow> js_error + json \<Rightarrow>
     (js_error + handler_response) \<times> upstream_request list" where
  "handler_try op env request_json =
     (case before_fetch op (GEMINI_API_KEY env) request_json of
        Inl e \<Rightarrow> (Inl e, [])
      | Inr (Inl response) \<Rightarrow> (Inr response, [])
      | Inr (Inr req) \<Rightarrow>
          (case upstream_fetch env req of
             Inl e \<Rightarrow> (Inl e, [req])
           | Inr response \<Rightarrow> (after_fetch op response, [req])))"

text \<open>
  \<^verbatim>\<open>POST\<close>: the \<^verbatim>\<open>catch\<close> block answers an exception of the
  \<^verbatim>\<open>try\<close> block with status 500 and the exception's message. The result is the
  handler's answer, or the exception that leaves the handler, and the requests sent
  upstream.
\<close>

definition POST ::
  "operation \<Rightarrow> handler_env \<Rightarrow> js_error + json \<Rightarrow>
     (js_error + handler_response) \<times> upstream_request list" where
  "POST op env request_json =
     (case handler_try op env request_json of
        (Inr response, calls) \<Rightarrow> (Inr response, calls)
      | (Inl e, calls) \<Rightarrow> (NextResponse_json 500 (ErrorCaught e), calls))"

section \<open>The client dispatchers\<close>

text \<open>
  \<^verbatim>\<open>getGeminiSettings\<close> (lib/settings.ts) reads the stored settings; the outcome of
  \<^verbatim>\<open>localStorage.getItem\<close> is an exception, \<^verbatim>\<open>null\<close> or a string.
\<close>

record gemini_settings =
  apiKey :: jsstring
  model :: json
  explanationModel :: json

definition DEFAULT_GEMINI_MODEL :: jsstring where
  "DEFAULT_GEMINI_MODEL = str ''gemini-2.0-flash''"

definition DEFAULT_GEMINI_EXPLANATION_MODEL :: jsstring where
  "DEFAULT_GEMINI_EXPLANATION_MODEL = str ''gemini-2.0-flash''"

definition DEFAULT_GEMINI_SETTINGS :: gemini_settings where
  "DEFAULT_GEMINI_SETTINGS =
     \<lparr>apiKey = [], model = JString DEFAULT_GEMINI_MODEL,
      explanationModel = JString DEFAULT_GEMINI_EXPLANATION_MODEL\<rparr>"

record browser =
  has_window :: bool
  stored_settings :: "js_error + jsstring option"

definition getGeminiSettings :: "browser \<Rightarrow> gemini_settings" where
  "getGeminiSettings b =
     (if \<not> has_window b then DEFAULT_GEMINI_SETTINGS
      else
        (case stored_settings b of
           Inl e \<Rightarrow> DEFAULT_GEMINI_SETTINGS
         | Inr None \<Rightarrow> DEFAULT_GEMINI_SETTINGS
         | Inr (Some stored) \<Rightarrow>
             if stored = [] then DEFAULT_GEMINI_SETTINGS
             else
               (case JSON_parse stored of
                  None \<Rightarrow> DEFAULT_GEMINI_SETTINGS
                | Some parsed \<Rightarrow>
                    (case get_prop parsed (str ''model'') of
                       Inl e \<Rightarrow> DEFAULT_GEMINI_SETTINGS
                     | Inr m \<Rightarrow>
                         \<lparr>apiKey = [],
                          model = or_else m (JString DEFAULT_GEMINI_MODEL),
                          explanationModel =
                            or_else (own_member parsed (str ''explanationModel''))
                              (JString DEFAULT_GEMINI_EXPLANATION_MODEL)\<rparr>))))"

text \<open>
  A request of the client: the URL and the object that \<^verbatim>\<open>JSON.stringify\<close> writes
  into the body. The response as the dispatcher observes it: \<^verbatim>\<open>response.ok\<close> and
  \<^verbatim>\<open>await response.json()\<close>.
\<close>

record client_request =
  cr_url :: jsstring
  cr_body :: json

record client_response =
  cl_ok :: bool
  cl_json :: "js_error + json"

record client_env =
  client_browser :: browser
  client_fetch :: "client_request \<Rightarrow> js_error + client_response"

text \<open>\<^verbatim>\<open>modelOverride || settings.model\<close>, with an optional string argument\<close>

definition override_or :: "jsstring option \<Rightarrow> json \<Rightarrow> json" where
  "override_or modelOverride d =
     (case modelOverride of None \<Rightarrow> d | Some s \<Rightarrow> if s = [] then d else JString s)"

definition request_body :: "jsstring \<Rightarrow> jsstring \<Rightarrow> jsstring \<Rightarrow> json \<Rightarrow> json" where
  "request_body text contextBefore contextAfter chosen =
     JObject [(str ''text'', JString text),
              (str ''contextBefore'', JString contextBefore),
              (str ''contextAfter'', JString contextAfter),
              (str ''model'', chosen)]"

text \<open>
  The part the two dispatchers share: one \<^verbatim>\<open>fetch\<close>; on a response that is not
  ok, \<^verbatim>\<open>throw new Error(error.error || fallback)\<close>; else the response's JSON.
  The result comes with the requests sent.
\<close>

definition dispatch ::
  "client_env \<Rightarrow> client_request \<Rightarrow> jsstring \<Rightarrow> (js_error + json) \<times> client_request list" where
  "dispatch env req failed =
     (case client_fetch env req of
        Inl e \<Rightarrow> (Inl e, [req])
      | Inr response \<Rightarrow>
          if \<not> cl_ok response then
            (case cl_json response of
               Inl e \<Rightarrow> (Inl e, [req])
             | Inr err \<Rightarrow>
                 (case get_prop err (str ''error'') of
                    Inl e \<Rightarrow> (Inl e, [req])
                  | Inr m \<Rightarrow>
                      (if stringifiable (or_else m (JString failed))
                       then (Inl (Error (or_else m (JString failed))), [req])
                       else (Inl TypeError, [req]))))
          else (cl_json response, [req]))"

definition translateWithGemini ::
  "client_env \<Rightarrow> jsstring \<Rightarrow> jsstring \<Rightarrow> jsstring \<Rightarrow> jsstring option \<Rightarrow>
     (js_error + json) \<times> client_request list" where
  "translateWithGemini env text contextBefore contextAfter modelOverride =
     (let settings = getGeminiSettings (client_browser env)
      in dispatch env
           \<lparr>cr_url = str ''/api/gemini/translate'',
            cr_body = request_body text contextBefore contextAfter
                        (override_or modelOverride (model settings))\<rparr>
           (str ''Translation failed''))"

definition explainDirectly ::
  "client_env \<Rightarrow> jsstring \<Rightarrow> jsstring \<Rightarrow> jsstring \<Rightarrow> jsstring option \<Rightarrow>
     (js_error + json) \<times> client_request list" where
  "explainDirectly env text contextBefore contextAfter modelOverride =
     (let settings = getGeminiSettings (client_browser env)
      in dispatch env
           \<lparr>cr_url = str ''/api/gemini/explain'',
            cr_body = request_body text contextBefore contextAfter
                        (override_or modelOverride (explanationModel settings))\<rparr>
           (str ''Explanation failed''))"

section \<open>The context menu\<close>

text \<open>
  \<^verbatim>\<open>useContextMenu\<close> (app/composables/useContextMenu.ts). The state is the ref
  \<^verbatim>\<open>contextMenuPosition\<close>; the document is what the handler reads of it: the
  window's selection, the element with id \<^verbatim>\<open>pdf-viewer-container\<close> and
  \<^verbatim>\<open>Node.contains\<close>. The fields \<^verbatim>\<open>x\<close> and \<^verbatim>\<open>y\<close> of a
  position are \<open>pos_x\<close> and \<open>pos_y\<close> here.
\<close>

record ContextMenuPosition =
  pos_x :: real
  pos_y :: real

record mouse_event =
  clientX :: real
  clientY :: real

text \<open>
  A selection: \<^verbatim>\<open>isCollapsed\<close>, \<^verbatim>\<open>toString()\<close> and the
  \<^verbatim>\<open>commonAncestorContainer\<close> of \<^verbatim>\<open>getRangeAt(0)\<close>, which throws an
  IndexSizeError when the selection has no range.
\<close>

record 'node selection =
  isCollapsed :: bool
  sel_string :: jsstring
  range0_container :: "'node option"

record 'node document =
  getSelection :: "'node selection option"
  pdf_viewer_container :: "'node option"
  node_contains :: "'node \<Rightarrow> 'node \<Rightarrow> bool"

text \<open>
  The state after the handler and whether it called \<^verbatim>\<open>e.preventDefault()\<close>.
\<close>

definition handleContextMenu ::
  "'node document \<Rightarrow> mouse_event \<Rightarrow> ContextMenuPosition option \<Rightarrow>
     js_error + ContextMenuPosition option \<times> bool" where
  "handleContextMenu doc e contextMenuPosition =
     (case getSelection doc of
        None \<Rightarrow> Inr (contextMenuPosition, False)
      | Some windowSelection \<Rightarrow>
          if isCollapsed windowSelection then Inr (contextMenuPosition, False)
          else if trim (sel_string windowSelection) = [] then Inr (contextMenuPosition, False)
          else
            (case range0_container windowSelection of
               None \<Rightarrow> Inl IndexSizeError
             | Some container \<Rightarrow>
                 (case pdf_viewer_container doc of
                    None \<Rightarrow> Inr (contextMenuPosition, False)
                  | Some pdfViewer \<Rightarrow>
                      if \<not> node_contains doc pdfViewer container
                      then Inr (contextMenuPosition, False)
                      else Inr (Some \<lparr>pos_x = clientX e, pos_y = clientY e\<rparr>, True))))"

text \<open>\<^verbatim>\<open>const closeContextMenu = () => {}\<close>\<close>

definition closeContextMenu :: "ContextMenuPosition option \<Rightarrow> ContextMenuPosition option" where
  "closeContextMenu contextMenuPosition = contextMenuPosition"

section \<open>Example environments\<close>

text \<open>
  A handler environment with a key whose upstream endpoint answers every request with the
  given status and body text, one whose upstream answer has a body that cannot be read,
  and one with no key.
\<close>

definition upstream_answering :: "nat \<Rightarrow> jsstring \<Rightarrow> handler_env" where
  "upstream_answering status body =
     \<lparr>GEMINI_API_KEY = Some (str ''secret''),
      upstream_fetch =
        (\<lambda>q. Inr \<lparr>up_status = status, up_text = Inr body, up_json = Inl SyntaxError\<rparr>)\<rparr>"

definition upstream_unreadable :: "nat \<Rightarrow> handler_env" where
  "upstream_unreadable status =
     \<lparr>GEMINI_API_KEY = Some (str ''secret''),
      upstream_fetch =
        (\<lambda>q. Inr \<lparr>up_status = status, up_text = Inl TypeError, up_json = Inl SyntaxError\<rparr>)\<rparr>"

definition keyless :: handler_env where
  "keyless =
     \<lparr>GEMINI_API_KEY = None,
      upstream_fetch =
        (\<lambda>q. Inr \<lparr>up_status = 200, up_text = Inr [], up_json = Inl SyntaxError\<rparr>)\<rparr>"

text \<open>
  A client whose backend refuses every request as the handler refuses a missing text:
  not ok, with the body \<^verbatim>\<open>{"error":"Text required"}\<close>.
\<close>

definition backend_refusing :: client_env where
  "backend_refusing =
     \<lparr>client_browser = \<lparr>has_window = True, stored_settings = Inr None\<rparr>,
      client_fetch =
        (\<lambda>q. Inr \<lparr>cl_ok = False,
                    cl_json = Inr (JObject [(str ''error'', JString (str ''Text required''))])\<rparr>)\<rparr>"

text \<open>
  A document of three nodes, the body 0, the viewer container 1 inside it and a text node
  2 inside the container, with a selection of the text node.
\<close>

definition viewer_document :: "nat document" where
  "viewer_document =
     \<lparr>getSelection =
        Some \<lparr>isCollapsed = False, sel_string = str '' harness '', range0_container = Some 2\<rparr>,
      pdf_viewer_container = Some 1,
      node_contains = (\<lambda>a b. (a, b) \<in> set [(0, 0), (0, 1), (0, 2), (1, 1), (1, 2), (2, 2)])\<rparr>"

section \<open>Notions used in the proofs\<close>

text \<open>
  An input starts an object when its first character after JSON whitespace is an opening
  brace. The value under construction in a parser state is an object when the outermost
  open frame is one, or when the finished value is.
\<close>

definition starts_object :: "jsstring \<Rightarrow> bool" where
  "starts_object s = (case dropWhile is_json_space s of [] \<Rightarrow> False | c # r \<Rightarrow> c = 0x7B)"

definition is_object :: "json \<Rightarrow> bool" where
  "is_object v = (case v of JObject ms \<Rightarrow> True | _ \<Rightarrow> False)"

definition frame_is_object :: "frame \<Rightarrow> bool" where
  "frame_is_object f = (case f of InArray vs \<Rightarrow> False | _ \<Rightarrow> True)"

definition outer_is_object :: "pmode \<times> frame list \<Rightarrow> bool" where
  "outer_is_object s =
     (case snd s of
        [] \<Rightarrow> (case fst s of Have v \<Rightarrow> is_object v | _ \<Rightarrow> False)
      | f # st \<Rightarrow> frame_is_object (last (f # st)))"

definition settled :: "pmode \<times> frame list \<Rightarrow> bool" where
  "settled s = (snd s \<noteq> [] \<or> (case fst s of Have v \<Rightarrow> True | _ \<Rightarrow> False))"

text \<open>
  What one parser step does to a stack \<open>f # st\<close>: it closes \<open>f\<close>, replaces it by a
  frame of the same kind, or opens a frame above it.
\<close>

definition moves :: "frame \<Rightarrow> frame list \<Rightarrow> pmode \<times> frame list \<Rightarrow> bool" where
  "moves f st s' =
     ((\<exists>v. s' = (Have v, st) \<and> is_object v = frame_is_object f)
      \<or> (\<exists>m g. s' = (m, g # st) \<and> frame_is_object g = frame_is_object f)
      \<or> (\<exists>m g. s' = (m, g # f # st)))"

section \<open>The parser: an object starts with a brace\<close>

lemma tokenize_first:
  "tokenize s = Some ts \<Longrightarrow> starts_object s = (\<exists>r. ts = TLBrace # r)"
proof (induction s arbitrary: ts)
  case Nil
  then show ?case by (simp add: starts_object_def)
next
  case (Cons c cs)
  show ?case
  proof (cases "is_json_space c")
    case True
    with Cons show ?thesis by (simp add: starts_object_def)
  next
    case False
    with Cons.prems show ?thesis
      by (auto simp: starts_object_def split: if_splits option.splits)
  qed
qed

lemma step_first:
  "step (NeedValue, []) t = Some s \<Longrightarrow> settled s \<and> outer_is_object s = (t = TLBrace)"
  by (auto simp: step_def value_start_def settled_def is_object_def outer_is_object_def
        frame_is_object_def split: token.splits)

lemma value_start_moves: "value_start (f # st) t = Some s' \<Longrightarrow> moves f st s'"
  by (auto simp: value_start_def moves_def split: token.splits)

lemma key_start_moves: "key_start (f # st) t = Some s' \<Longrightarrow> moves f st s'"
  by (auto simp: key_start_def moves_def split: token.splits)

lemma after_value_moves: "after_value v (f # st) t = Some s' \<Longrightarrow> moves f st s'"
  by (cases f; cases t)
     (auto simp: after_value_def moves_def is_object_def frame_is_object_def)

lemma step_moves: "step (m, f # st) t = Some s' \<Longrightarrow> moves f st s'"
proof (cases m)
  case NeedValue
  assume "step (m, f # st) t = Some s'"
  with NeedValue show ?thesis by (simp add: step_def value_start_moves)
next
  case NeedValueOrClose
  assume a: "step (m, f # st) t = Some s'"
  have "step (NeedValueOrClose, f # st) t = value_start (f # st) t
      \<or> (\<exists>vs. f = InArray vs \<and> step (NeedValueOrClose, f # st) t = Some (Have (JArray vs), st))"
    by (cases t; cases f) (simp_all add: step_def)
  then show ?thesis
  proof
    assume "step (NeedValueOrClose, f # st) t = value_start (f # st) t"
    with a NeedValueOrClose have "value_start (f # st) t = Some s'" by simp
    then show ?thesis by (rule value_start_moves)
  next
    assume "\<exists>vs. f = InArray vs \<and> step (NeedValueOrClose, f # st) t = Some (Have (JArray vs), st)"
    with a NeedValueOrClose show ?thesis
      by (auto simp: moves_def is_object_def frame_is_object_def)
  qed
next
  case NeedKey
  assume "step (m, f # st) t = Some s'"
  with NeedKey show ?thesis by (simp add: step_def key_start_moves)
next
  case NeedKeyOrClose
  assume a: "step (m, f # st) t = Some s'"
  have "step (NeedKeyOrClose, f # st) t = key_start (f # st) t
      \<or> (\<exists>ms. f = InObject ms \<and> step (NeedKeyOrClose, f # st) t = Some (Have (JObject ms), st))"
    by (cases t; cases f) (simp_all add: step_def)
  then show ?thesis
  proof
    assume "step (NeedKeyOrClose, f # st) t = key_start (f # st) t"
    with a NeedKeyOrClose have "key_start (f # st) t = Some s'" by simp
    then show ?thesis by (rule key_start_moves)
  next
    assume "\<exists>ms. f = InObject ms \<and> step (NeedKeyOrClose, f # st) t = Some (Have (JObject ms), st)"
    with a NeedKeyOrClose show ?thesis
      by (auto simp: moves_def is_object_def frame_is_object_def)
  qed
next
  case (NeedColon k)
  assume "step (m, f # st) t = Some s'"
  with NeedColon show ?thesis
    by (cases t; cases f) (auto simp: step_def moves_def frame_is_object_def)
next
  case (Have v)
  assume "step (m, f # st) t = Some s'"
  with Have show ?thesis by (simp add: step_def after_value_moves)
qed

lemma moves_outer:
  "moves f st s' \<Longrightarrow> settled s' \<and> outer_is_object s' = outer_is_object (m, f # st)"
  by (cases st)
     (auto simp: moves_def settled_def outer_is_object_def split: list.splits)

lemma step_settled:
  "settled s \<Longrightarrow> step s t = Some s' \<Longrightarrow> settled s' \<and> outer_is_object s' = outer_is_object s"
proof (cases s)
  case (Pair m st)
  assume a: "settled s" and b: "step s t = Some s'"
  show ?thesis
  proof (cases st)
    case Nil
    with a b Pair show ?thesis
      by (auto simp: settled_def step_def after_value_def split: pmode.splits)
  next
    case (Cons f st')
    with b Pair have "moves f st' s'" by (simp add: step_moves)
    from moves_outer [OF this] Pair Cons show ?thesis by simp
  qed
qed

lemma run_settled:
  "settled s \<Longrightarrow> run s ts = Some s' \<Longrightarrow> outer_is_object s' = outer_is_object s"
proof (induction ts arbitrary: s)
  case Nil
  then show ?case by simp
next
  case (Cons t ts)
  then show ?case by (auto split: option.splits dest: step_settled)
qed

lemma parse_tokens_object:
  "parse_tokens ts = Some v \<Longrightarrow> is_object v = (\<exists>r. ts = TLBrace # r)"
proof (cases ts)
  case Nil
  assume "parse_tokens ts = Some v"
  with Nil show ?thesis by (simp add: parse_tokens_def)
next
  case (Cons t r)
  assume p: "parse_tokens ts = Some v"
  then obtain s1 where s1: "step (NeedValue, []) t = Some s1" and r: "run s1 r = Some (Have v, [])"
    using Cons by (auto simp: parse_tokens_def split: option.splits pmode.splits list.splits)
  from step_first [OF s1] run_settled [OF _ r] have "is_object v = (t = TLBrace)"
    by (simp add: outer_is_object_def)
  with Cons show ?thesis by simp
qed

lemma JSON_parse_object:
  "JSON_parse s = Some v \<Longrightarrow> is_object v = starts_object s"
  by (auto simp: JSON_parse_def split: option.splits dest: tokenize_first parse_tokens_object)

section \<open>Cleaning keeps an opening brace in front\<close>

lemma json_space_js_space: "is_json_space c \<Longrightarrow> is_js_space c"
  by (auto simp: is_json_space_def is_js_space_def)

lemma brace_not_space: "\<not> is_js_space 0x7B"
  by (simp add: is_js_space_def)

lemma starts_object_dropWhile:
  assumes "starts_object s"
  shows "\<exists>r. dropWhile is_js_space s = 0x7B # r"
  using assms
proof (induction s)
  case Nil
  then show ?case by (simp add: starts_object_def)
next
  case (Cons c cs)
  show ?case
  proof (cases "is_json_space c")
    case True
    with Cons show ?thesis by (simp add: starts_object_def json_space_js_space)
  next
    case False
    with Cons.prems have "c = 0x7B" by (simp add: starts_object_def)
    then show ?thesis by (simp add: brace_not_space)
  qed
qed

lemma drop_trailing_space:
  "\<not> is_js_space x \<Longrightarrow>
     rev (dropWhile is_js_space (ys @ [x])) = x # rev (dropWhile is_js_space ys)"
  by (simp add: dropWhile_append)

lemma trim_brace: "trim (0x7B # r) = 0x7B # rev (dropWhile is_js_space (rev r))"
  by (simp add: trim_def brace_not_space drop_trailing_space)

lemma strip_fence_json_brace: "strip_fence_json (0x7B # r) = 0x7B # r"
  by (simp add: strip_fence_json_def str_def)

lemma strip_fence_open_brace: "strip_fence_open (0x7B # r) = 0x7B # r"
  by (simp add: strip_fence_open_def str_def)

lemma strip_fence_close_brace: "\<exists>r'. strip_fence_close (0x7B # r) = 0x7B # r'"
proof (cases "take 3 (rev (0x7B # r)) = str ''```''")
  case False
  then show ?thesis by (simp add: strip_fence_close_def)
next
  case True
  have "3 \<le> length r"
  proof (rule ccontr)
    assume "\<not> 3 \<le> length r"
    then have "take 3 (rev r @ [0x7B :: jschar]) = rev r @ [0x7B]" by simp
    with True have "rev r @ [0x7B :: jschar] = str ''```''" by simp
    then have "last (rev r @ [0x7B :: jschar]) = last (str ''```'')" by simp
    then show False by (simp add: str_def)
  qed
  then have "drop 3 (rev (0x7B # r)) = drop 3 (rev r) @ [0x7B]" by simp
  then have "rev (dropWhile is_js_space (drop 3 (rev (0x7B # r))))
      = 0x7B # rev (dropWhile is_js_space (drop 3 (rev r)))"
    by (simp only: drop_trailing_space [OF brace_not_space])
  with True show ?thesis
    by (simp add: strip_fence_close_def)
qed

lemma cleaned_starts_object:
  assumes "starts_object s"
  shows "starts_object (cleaned s)"
proof -
  from starts_object_dropWhile [OF assms] obtain r where "dropWhile is_js_space s = 0x7B # r" ..
  then have "trim s = 0x7B # rev (dropWhile is_js_space (rev r))"
    by (simp add: trim_def drop_trailing_space [OF brace_not_space])
  then obtain r1 where 1: "trim s = 0x7B # r1" ..
  from strip_fence_close_brace obtain r2 where 2: "strip_fence_close (0x7B # r1) = 0x7B # r2" ..
  from trim_brace obtain r3 where 3: "trim (0x7B # r2) = 0x7B # r3" by blast
  from 1 2 3 have "cleaned s = 0x7B # r3"
    by (simp add: cleaned_def strip_fence_json_brace strip_fence_open_brace)
  then show ?thesis by (simp add: starts_object_def is_json_space_def)
qed

lemma direct_parse_Some:
  assumes "try_catch (direct_parse field text) = Some p"
  shows "JSON_parse text = Some p \<and> is_object p"
  using assms
  by (auto simp: try_catch_def direct_parse_def get_prop_def own_member_def is_object_def
           split: option.splits sum.splits json.splits if_splits)

lemma falsy_not_object: "\<not> truthy v \<Longrightarrow> \<not> is_object v"
  by (auto simp: truthy_def is_object_def split: json.splits)

lemma direct_parse_not_object:
  assumes "JSON_parse text = Some v" and "\<not> is_object v"
  shows "try_catch (direct_parse field text) = None"
  using assms
  by (auto simp: try_catch_def direct_parse_def get_prop_def own_member_def is_object_def
           split: option.splits sum.splits json.splits if_splits)

lemma flexible_parse_falsy:
  assumes "JSON_parse text = Some v" and "\<not> truthy_opt (candidate v)"
  shows "try_catch (flexible_parse field text) = None"
  using assms
  by (auto simp: try_catch_def flexible_parse_def truthy_opt_def split: option.splits)

section \<open>Properties of the normalizer\<close>

text \<open>
  The parser on some inputs: a repeated key, the number forms, an escape, and texts that
  \<^verbatim>\<open>JSON.parse\<close> rejects (a trailing comma, a leading zero, two values, an open
  string, the empty text, a cut literal, a byte order mark in front).
\<close>

lemma JSON_parse_examples:
  "JSON_parse (str '' {\"a\": [1, 2.5e1, -0, true, null], \"b\": \"x\", \"a\": {}} '') =
     Some (JObject [(str ''a'', JObject []), (str ''b'', JString (str ''x''))])"
  "JSON_parse (str ''[1, 2.5e1, -0, 1E-2, true, null]'') =
     Some (JArray [JNumber 1, JNumber 25, JNumber 0, JNumber (1 / 100), JBool True, JNull])"
  "JSON_parse (str ''\"'' @ [0x5C] @ str ''u0041'' @ [0x5C] @ str ''n\"'') =
     Some (JString [0x41, 0x0A])"
  "JSON_parse (str ''[1,]'') = None"
  "JSON_parse (str ''{\"a\":1,}'') = None"
  "JSON_parse (str ''01'') = None"
  "JSON_parse (str ''1 2'') = None"
  "JSON_parse (str ''\"abc'') = None"
  "JSON_parse [] = None"
  "JSON_parse (str ''nul'') = None"
  "JSON_parse (0xFEFF # str ''{}'') = None"
  by code_simp+

text \<open>
  A fenced answer is unwrapped by the second stage; a text that is JSON neither raw nor
  cleaned falls through all stages.
\<close>

lemma fenced_block_is_unwrapped:
  "parseTranslationResponse
     (str ''```json\<newline>{\"translation\":\"cat\",\"points\":[\"a\",\"b\"]}\<newline>```'') =
   Inr (JObject [(str ''translation'', JString (str ''cat'')),
                 (str ''points'', JArray [JString (str ''a''), JString (str ''b'')])])"
  by code_simp

lemma not_json_falls_back:
  assumes "JSON_parse text = None" and "JSON_parse (cleaned text) = None"
  shows "parseResponse field text = Inr (result_object field text [])"
  using assms
  by (simp add: parseResponse_def try_catch_def direct_parse_def flexible_parse_def)


lemma parseResponse_returns: "\<exists>r. parseResponse field text = Inr r"
  by (simp add: parseResponse_def split: option.split)

text \<open>
  The stages do throw: the direct parse of \<^verbatim>\<open>null\<close> ends in the TypeError of
  the property read and that of a text that is not JSON in the SyntaxError of
  \<^verbatim>\<open>JSON.parse\<close>. Both are caught.
\<close>

lemma stages_throw_and_are_caught:
  "direct_parse (str ''translation'') (str ''null'') = Inl TypeError"
  "direct_parse (str ''summary'') (str ''oops'') = Inl SyntaxError"
  "flexible_parse (str ''summary'') (str ''oops'') = Inl SyntaxError"
  "try_catch (direct_parse (str ''translation'') (str ''null'')) = None"
  by code_simp+

text \<open>
  C2. The normalizer is total: for every input string, \<^verbatim>\<open>parseTranslationResponse\<close>
  and \<^verbatim>\<open>parseExplanationResponse\<close> return a value and raise no exception. Every
  exception of the three parse stages (the SyntaxError of \<^verbatim>\<open>JSON.parse\<close>, the
  TypeError of a property read on \<^verbatim>\<open>null\<close>) is caught inside the function,
  and \<^verbatim>\<open>JSON.parse\<close> itself returns or throws on every string.
\<close>

theorem normalizer_total:
  "(\<exists>r. parseTranslationResponse text = Inr r) \<and> (\<exists>r. parseExplanationResponse text = Inr r)"
  by (simp add: parseTranslationResponse_def parseExplanationResponse_def parseResponse_def
           split: option.split)

text \<open>
  C10. For every input string whose fence-stripped form is valid JSON and parses to a false
  value (\<^verbatim>\<open>null\<close>, \<^verbatim>\<open>false\<close>, a zero, the empty string) or to an array
  whose first element is false or missing, the lenient stage produces no candidate and the
  normalizer returns the fallback: the primary field is the raw input and
  \<^verbatim>\<open>points\<close> is empty. The direct parse of the raw input cannot succeed there:
  it would need an object, whose text starts with a brace also after cleaning.
\<close>

theorem falsy_parse_falls_back:
  assumes "JSON_parse (cleaned text) = Some v"
    and "\<not> truthy v \<or> (\<exists>xs. v = JArray xs \<and> \<not> truthy_opt (first_element xs))"
  shows "parseTranslationResponse text =
           Inr (JObject [(str ''translation'', JString text), (str ''points'', JArray [])])
       \<and> parseExplanationResponse text =
           Inr (JObject [(str ''summary'', JString text), (str ''points'', JArray [])])"
proof -
  from assms(2) have no: "\<not> is_object v"
    by (auto simp: is_object_def dest: falsy_not_object)
  from assms(2) have cand: "\<not> truthy_opt (candidate v)"
    by (auto simp: candidate_def truthy_opt_def truthy_def split: json.splits)
  have raw: "try_catch (direct_parse field text) = None" for field
  proof (cases "try_catch (direct_parse field text)")
    case None
    then show ?thesis .
  next
    case (Some p)
    from direct_parse_Some [OF Some] have p: "JSON_parse text = Some p" and "is_object p"
      by simp_all
    with JSON_parse_object [OF p] have "starts_object text" by simp
    then have "starts_object (cleaned text)" by (rule cleaned_starts_object)
    with JSON_parse_object [OF assms(1)] no show ?thesis by simp
  qed
  have "parseResponse field text = Inr (result_object field text [])" for field
    by (simp add: parseResponse_def raw direct_parse_not_object [OF assms(1) no]
          flexible_parse_falsy [OF assms(1) cand])
  then show ?thesis
    by (simp add: parseTranslationResponse_def parseExplanationResponse_def result_object_def)
qed


theorem falsy_parse_falls_back_witness:
  "JSON_parse (cleaned (str ''[]'')) = Some (JArray [])
   \<and> parseTranslationResponse (str ''[]'') =
       Inr (JObject [(str ''translation'', JString (str ''[]'')), (str ''points'', JArray [])])
   \<and> parseExplanationResponse (str ''[]'') =
       Inr (JObject [(str ''summary'', JString (str ''[]'')), (str ''points'', JArray [])])
   \<and> JSON_parse (cleaned (str ''null'')) = Some JNull
   \<and> parseTranslationResponse (str ''null'') =
       Inr (JObject [(str ''translation'', JString (str ''null'')), (str ''points'', JArray [])])
   \<and> JSON_parse (cleaned (str ''0'')) = Some (JNumber 0)
   \<and> parseTranslationResponse (str ''0'') =
       Inr (JObject [(str ''translation'', JString (str ''0'')), (str ''points'', JArray [])])
   \<and> JSON_parse (cleaned (str ''false'')) = Some (JBool False)
   \<and> parseTranslationResponse (str ''false'') =
       Inr (JObject [(str ''translation'', JString (str ''false'')), (str ''points'', JArray [])])
   \<and> JSON_parse (cleaned (str ''\"\"'')) = Some (JString [])
   \<and> parseTranslationResponse (str ''\"\"'') =
       Inr (JObject [(str ''translation'', JString (str ''\"\"'')), (str ''points'', JArray [])])"
proof -
  have a: "JSON_parse (cleaned (str ''[]'')) = Some (JArray [])" by code_simp
  have n: "JSON_parse (cleaned (str ''null'')) = Some JNull" by code_simp
  have z: "JSON_parse (cleaned (str ''0'')) = Some (JNumber 0)" by code_simp
  have f: "JSON_parse (cleaned (str ''false'')) = Some (JBool False)" by code_simp
  have e: "JSON_parse (cleaned (str ''\"\"'')) = Some (JString [])" by code_simp
  have a': "\<not> truthy (JArray []) \<or> (\<exists>xs. JArray [] = JArray xs \<and> \<not> truthy_opt (first_element xs))"
    by (simp add: truthy_opt_def first_element_def)
  have n': "\<not> truthy JNull \<or> (\<exists>xs. JNull = JArray xs \<and> \<not> truthy_opt (first_element xs))"
    by (simp add: truthy_def)
  have z': "\<not> truthy (JNumber 0) \<or> (\<exists>xs. JNumber 0 = JArray xs \<and> \<not> truthy_opt (first_element xs))"
    by (simp add: truthy_def)
  have f': "\<not> truthy (JBool False) \<or> (\<exists>xs. JBool False = JArray xs \<and> \<not> truthy_opt (first_element xs))"
    by (simp add: truthy_def)
  have e': "\<not> truthy (JString []) \<or> (\<exists>xs. JString [] = JArray xs \<and> \<not> truthy_opt (first_element xs))"
    by (simp add: truthy_def)
  show ?thesis
    using a n z f e
      falsy_parse_falls_back [OF a a'] falsy_parse_falls_back [OF n n']
      falsy_parse_falls_back [OF z z'] falsy_parse_falls_back [OF f f']
      falsy_parse_falls_back [OF e e']
    by simp
qed

text \<open>
  C6. For every input string on which all three parse stages fail to produce a usable
  object (the direct parse of the raw text, the direct parse of the cleaned text and the
  lenient parse of the cleaned text each throw or fall through), the normalizer returns the
  primary field set to the raw input text, not the cleaned text, and an empty
  \<^verbatim>\<open>points\<close>.
\<close>

theorem all_stages_fail_returns_raw_text:
  "(try_catch (direct_parse (str ''translation'') text) = None
      \<and> try_catch (direct_parse (str ''translation'') (cleaned text)) = None
      \<and> try_catch (flexible_parse (str ''translation'') (cleaned text)) = None
    \<longrightarrow> parseTranslationResponse text =
          Inr (JObject [(str ''translation'', JString text), (str ''points'', JArray [])]))
   \<and> (try_catch (direct_parse (str ''summary'') text) = None
      \<and> try_catch (direct_parse (str ''summary'') (cleaned text)) = None
      \<and> try_catch (flexible_parse (str ''summary'') (cleaned text)) = None
    \<longrightarrow> parseExplanationResponse text =
          Inr (JObject [(str ''summary'', JString text), (str ''points'', JArray [])]))"
  by (simp add: parseTranslationResponse_def parseExplanationResponse_def parseResponse_def
        result_object_def)

text \<open>
  The input \<^verbatim>\<open>not json at all\<close>, and a fenced input, where the raw
  text differs from the cleaned text and comes back with its fences.
\<close>

theorem all_stages_fail_returns_raw_text_witness:
  "try_catch (direct_parse (str ''translation'') (str ''not json at all'')) = None
   \<and> try_catch (direct_parse (str ''translation'') (cleaned (str ''not json at all''))) = None
   \<and> try_catch (flexible_parse (str ''translation'') (cleaned (str ''not json at all''))) = None
   \<and> parseTranslationResponse (str ''not json at all'') =
       Inr (JObject [(str ''translation'', JString (str ''not json at all'')),
                     (str ''points'', JArray [])])
   \<and> parseExplanationResponse (str ''not json at all'') =
       Inr (JObject [(str ''summary'', JString (str ''not json at all'')),
                     (str ''points'', JArray [])])
   \<and> cleaned (str ''``` oops ```'') = str ''oops''
   \<and> parseExplanationResponse (str ''``` oops ```'') =
       Inr (JObject [(str ''summary'', JString (str ''``` oops ```'')),
                     (str ''points'', JArray [])])"
proof -
  have t1: "try_catch (direct_parse (str ''translation'') (str ''not json at all'')) = None"
    by code_simp
  have t2: "try_catch (direct_parse (str ''translation'') (cleaned (str ''not json at all''))) = None"
    by code_simp
  have t3: "try_catch (flexible_parse (str ''translation'') (cleaned (str ''not json at all''))) = None"
    by code_simp
  have s1: "try_catch (direct_parse (str ''summary'') (str ''not json at all'')) = None"
    by code_simp
  have s2: "try_catch (direct_parse (str ''summary'') (cleaned (str ''not json at all''))) = None"
    by code_simp
  have s3: "try_catch (flexible_parse (str ''summary'') (cleaned (str ''not json at all''))) = None"
    by code_simp
  have c: "cleaned (str ''``` oops ```'') = str ''oops''"
    by code_simp
  have o1: "try_catch (direct_parse (str ''summary'') (str ''``` oops ```'')) = None"
    by code_simp
  have o2: "try_catch (direct_parse (str ''summary'') (cleaned (str ''``` oops ```''))) = None"
    by code_simp
  have o3: "try_catch (flexible_parse (str ''summary'') (cleaned (str ''``` oops ```''))) = None"
    by code_simp
  show ?thesis
    using t1 t2 t3 s1 s2 s3 c o1 o2 o3
      all_stages_fail_returns_raw_text [of "str ''not json at all''"]
      all_stages_fail_returns_raw_text [of "str ''``` oops ```''"]
    by simp
qed

text \<open>
  C7. For the input
  \<^verbatim>\<open>[{"summary":"x","points":["p1",{"bad":1},"p2"]}]\<close> the two direct parses fall
  through (the parsed value is an array), the lenient stage takes the array's first element
  as the candidate, keeps the string \<^verbatim>\<open>summary\<close> and the string elements of
  \<^verbatim>\<open>points\<close>, and \<^verbatim>\<open>parseExplanationResponse\<close> returns
  \<^verbatim>\<open>{summary: "x", points: ["p1", "p2"]}\<close>: the nested object is dropped.
\<close>

theorem array_wrapped_object_is_filtered:
  "try_catch (direct_parse (str ''summary'')
       (str ''[{\"summary\":\"x\",\"points\":[\"p1\",{\"bad\":1},\"p2\"]}]'')) = None
   \<and> try_catch (direct_parse (str ''summary'')
       (cleaned (str ''[{\"summary\":\"x\",\"points\":[\"p1\",{\"bad\":1},\"p2\"]}]''))) = None
   \<and> map_option candidate
         (JSON_parse (cleaned (str ''[{\"summary\":\"x\",\"points\":[\"p1\",{\"bad\":1},\"p2\"]}]'')))
       = Some (Some (JObject [(str ''summary'', JString (str ''x'')),
                              (str ''points'', JArray [JString (str ''p1''),
                                                       JObject [(str ''bad'', JNumber 1)],
                                                       JString (str ''p2'')])]))
   \<and> parseExplanationResponse (str ''[{\"summary\":\"x\",\"points\":[\"p1\",{\"bad\":1},\"p2\"]}]'')
       = Inr (JObject [(str ''summary'', JString (str ''x'')),
                       (str ''points'', JArray [JString (str ''p1''), JString (str ''p2'')])])"
  by (intro conjI; code_simp)

text \<open>
  What does hold: a result of the lenient stage or of the fallback has a string as its
  primary field and only strings in \<^verbatim>\<open>points\<close>.
\<close>

lemma primary_is_not_points:
  "field = str ''translation'' \<or> field = str ''summary'' \<Longrightarrow> field \<noteq> str ''points''"
  by (auto simp: str_def)

lemma result_object_well_formed:
  assumes "field \<noteq> str ''points''" and "list_all is_string pts"
  shows "well_formed field (result_object field s pts)"
  using assms by (simp add: well_formed_def result_object_def)

lemma string_elements_are_strings: "list_all is_string (string_elements v)"
  by (auto simp: string_elements_def list_all_iff split: option.splits json.splits)

lemma flexible_parse_result:
  assumes "try_catch (flexible_parse field text) = Some r"
  shows "\<exists>s pts. r = result_object field s pts \<and> list_all is_string pts"
  using assms string_elements_are_strings
  by (auto simp: try_catch_def flexible_parse_def
           split: option.splits sum.splits if_splits)

lemma later_stages_well_formed:
  assumes "field = str ''translation'' \<or> field = str ''summary''"
    and "try_catch (direct_parse field text) = None"
    and "try_catch (direct_parse field (cleaned text)) = None"
  shows "\<exists>r. parseResponse field text = Inr r \<and> well_formed field r"
proof -
  from assms(1) have np: "field \<noteq> str ''points''"
    by (rule primary_is_not_points)
  show ?thesis
  proof (cases "try_catch (flexible_parse field (cleaned text))")
    case None
    with assms(2,3) have "parseResponse field text = Inr (result_object field text [])"
      by (simp add: parseResponse_def)
    moreover have "well_formed field (result_object field text [])"
      using np by (simp add: result_object_well_formed)
    ultimately show ?thesis by simp
  next
    case (Some r)
    from flexible_parse_result [OF Some] obtain s pts
      where "r = result_object field s pts" and "list_all is_string pts" by blast
    with np have "well_formed field r"
      by (simp add: result_object_well_formed)
    with Some assms(2,3) show ?thesis by (simp add: parseResponse_def)
  qed
qed

text \<open>
  C1 does not hold of the code. The direct parse accepts a parsed object as it is when
  its primary field is defined and its \<^verbatim>\<open>points\<close> is an array, whatever the
  array holds: for \<^verbatim>\<open>{"translation":"x","points":["p1",{"bad":1},"p2"]}\<close> the
  normalizer returns the object with the nested object still in \<^verbatim>\<open>points\<close>, and
  for \<^verbatim>\<open>{"summary":5,"points":[]}\<close> a result whose primary field is a number.
\<close>

theorem direct_parse_returns_nested_points:
  "parseTranslationResponse (str ''{\"translation\":\"x\",\"points\":[\"p1\",{\"bad\":1},\"p2\"]}'')
     = Inr (JObject [(str ''translation'', JString (str ''x'')),
                     (str ''points'', JArray [JString (str ''p1''),
                                              JObject [(str ''bad'', JNumber 1)],
                                              JString (str ''p2'')])])
   \<and> well_formed (str ''translation'')
         (JObject [(str ''translation'', JString (str ''x'')),
                   (str ''points'', JArray [JString (str ''p1''),
                                            JObject [(str ''bad'', JNumber 1)],
                                            JString (str ''p2'')])]) = False
   \<and> parseExplanationResponse (str ''{\"summary\":5,\"points\":[]}'')
     = Inr (JObject [(str ''summary'', JNumber 5), (str ''points'', JArray [])])
   \<and> well_formed (str ''summary'')
         (JObject [(str ''summary'', JNumber 5), (str ''points'', JArray [])]) = False"
  by (intro conjI; code_simp)

section \<open>Properties of the backend handlers\<close>

text \<open>
  The statuses that \<^verbatim>\<open>NextResponse.json\<close> accepts, and the three that the
  source writes itself.
\<close>

lemma NextResponse_json_accepts:
  assumes "200 \<le> status" and "status \<le> 599" and "\<not> null_body_status status"
  shows "NextResponse_json status body = Inr \<lparr>res_status = status, res_body = body\<rparr>"
  using assms by (simp add: NextResponse_json_def)

lemma NextResponse_json_fixed:
  "NextResponse_json 200 body = Inr \<lparr>res_status = 200, res_body = body\<rparr>"
  "NextResponse_json 400 body = Inr \<lparr>res_status = 400, res_body = body\<rparr>"
  "NextResponse_json 500 body = Inr \<lparr>res_status = 500, res_body = body\<rparr>"
  by (simp_all add: NextResponse_json_def null_body_status_def)

text \<open>The handler answers every request: no exception leaves \<^verbatim>\<open>POST\<close>.\<close>

lemma POST_answers: "\<exists>response. fst (POST op env request_json) = Inr response"
  by (cases "handler_try op env request_json")
     (auto simp: POST_def NextResponse_json_fixed split: sum.splits)

text \<open>
  \<open>decimal\<close> writes a number as its decimal numeral: digits only, no leading zero,
  with the number as value (\<open>digits_val\<close> is the value that the number lexer of
  \<^verbatim>\<open>JSON.parse\<close> reads). A status of three digits is written with exactly these.
\<close>

lemma decimal_small: "n < 10 \<Longrightarrow> decimal n = [of_nat (48 + n)]"
  by (subst decimal.simps) simp

lemma decimal_step: "10 \<le> n \<Longrightarrow> decimal n = decimal (n div 10) @ [of_nat (48 + n mod 10)]"
  by (subst decimal.simps) simp

lemma digit_char_unat: "k < 10 \<Longrightarrow> unat (of_nat (48 + k) :: jschar) = 48 + k"
  by (simp only: unat_of_nat) simp

lemma digit_char_value: "k < 10 \<Longrightarrow> unat ((of_nat (48 + k) :: jschar) - 0x30) = k"
  by (simp add: unat_of_nat)

lemma digit_char_is_digit: "k < 10 \<Longrightarrow> is_digit (of_nat (48 + k))"
  unfolding is_digit_def word_le_nat_alt
  by (simp only: digit_char_unat) simp

lemma digits_val_snoc: "digits_val (ds @ [d]) = 10 * digits_val ds + unat (d - 0x30)"
  by (simp add: digits_val_def)

lemma decimal_value: "digits_val (decimal n) = n"
proof (induction n rule: decimal.induct)
  case (1 n)
  show ?case
  proof (cases "n < 10")
    case True
    then have "digits_val [of_nat (48 + n)] = n"
      unfolding digits_val_def by (simp only: foldl.simps digit_char_value)
    with True show ?thesis by (simp only: decimal_small)
  next
    case False
    with 1 have "digits_val (decimal (n div 10)) = n div 10" by simp
    moreover have "unat ((of_nat (48 + n mod 10) :: jschar) - 0x30) = n mod 10"
      by (rule digit_char_value) simp
    moreover from False have "decimal n = decimal (n div 10) @ [of_nat (48 + n mod 10)]"
      by (intro decimal_step) simp
    ultimately show ?thesis by (simp only: digits_val_snoc) simp
  qed
qed

lemma decimal_digits: "list_all is_digit (decimal n)"
proof (induction n rule: decimal.induct)
  case (1 n)
  show ?case
  proof (cases "n < 10")
    case True
    then have "is_digit (of_nat (48 + n))" by (rule digit_char_is_digit)
    with True show ?thesis by (simp add: decimal_small)
  next
    case False
    with 1 have "list_all is_digit (decimal (n div 10))" by simp
    moreover have "is_digit (of_nat (48 + n mod 10))"
      by (rule digit_char_is_digit) simp
    moreover from False have "decimal n = decimal (n div 10) @ [of_nat (48 + n mod 10)]"
      by (intro decimal_step) simp
    ultimately show ?thesis by simp
  qed
qed

lemma decimal_not_empty: "decimal n \<noteq> []"
  by (subst decimal.simps) simp

lemma decimal_no_leading_zero: "0 < n \<Longrightarrow> hd (decimal n) \<noteq> 0x30"
proof (induction n rule: decimal.induct)
  case (1 n)
  show ?case
  proof (cases "n < 10")
    case True
    then have "unat (of_nat (48 + n) :: jschar) = 48 + n" by (rule digit_char_unat)
    with "1.prems" have "unat (of_nat (48 + n) :: jschar) \<noteq> unat (0x30 :: jschar)"
      by simp
    then have "(of_nat (48 + n) :: jschar) \<noteq> 0x30" by metis
    with True show ?thesis by (simp add: decimal_small)
  next
    case False
    with 1 have "hd (decimal (n div 10)) \<noteq> 0x30" by simp
    moreover from False have "decimal n = decimal (n div 10) @ [of_nat (48 + n mod 10)]"
      by (intro decimal_step) simp
    ultimately show ?thesis by (simp add: decimal_not_empty)
  qed
qed

lemma decimal_three_digits:
  assumes "100 \<le> n" and "n \<le> 999"
  shows "decimal n =
           [of_nat (48 + n div 100), of_nat (48 + n div 10 mod 10), of_nat (48 + n mod 10)]"
proof -
  from assms have "n div 10 div 10 < 10" by simp
  then have "decimal (n div 10 div 10) = [of_nat (48 + n div 10 div 10)]"
    by (rule decimal_small)
  moreover from assms have "decimal (n div 10) =
      decimal (n div 10 div 10) @ [of_nat (48 + n div 10 mod 10)]"
    by (intro decimal_step) simp
  moreover from assms have "decimal n = decimal (n div 10) @ [of_nat (48 + n mod 10)]"
    by (intro decimal_step) simp
  ultimately show ?thesis by (simp add: div_mult2_eq [symmetric])
qed

lemma decimal_examples:
  "decimal 0 = str ''0''"
  "decimal 7 = str ''7''"
  "decimal 42 = str ''42''"
  "decimal 300 = str ''300''"
  "decimal 404 = str ''404''"
  "decimal 500 = str ''500''"
  "decimal 599 = str ''599''"
  "decimal 1000 = str ''1000''"
  by code_simp+

text \<open>
  C4 does not hold for every upstream answer that is not a success. The handler reads the
  body text before it looks at the status, so a 429 whose body cannot be read ends in the
  \<^verbatim>\<open>catch\<close> block; and \<^verbatim>\<open>NextResponse.json\<close> refuses the status 304 and
  a status above 599. In each case the answer has status 500 and the exception's message.
\<close>

theorem upstream_failure_can_be_answered_with_500:
  "POST Translate (upstream_unreadable 429)
      (Inr (JObject [(str ''text'', JString (str ''cat''))])) =
     (Inr \<lparr>res_status = 500, res_body = ErrorCaught TypeError\<rparr>,
      [build_request Translate (str ''secret'') (JObject [(str ''text'', JString (str ''cat''))])
         (JString (str ''cat''))])
   \<and> fst (POST Translate (upstream_unreadable 429)
      (Inr (JObject [(str ''text'', JString (str ''cat''))]))) \<noteq>
     Inr \<lparr>res_status = 429,
          res_body = ErrorMessage
            (str ''Rate limit exceeded. Please wait a moment and try again.'')\<rparr>
   \<and> fst (POST Translate (upstream_answering 304 (str ''not modified''))
      (Inr (JObject [(str ''text'', JString (str ''cat''))]))) =
     Inr \<lparr>res_status = 500, res_body = ErrorCaught TypeError\<rparr>
   \<and> fst (POST Explain (upstream_answering 999 (str ''denied''))
      (Inr (JObject [(str ''text'', JString (str ''cat''))]))) =
     Inr \<lparr>res_status = 500, res_body = ErrorCaught RangeError\<rparr>"
  by (simp add: POST_def handler_try_def before_fetch_def after_fetch_def
        upstream_unreadable_def upstream_answering_def up_ok_def
        NextResponse_json_def null_body_status_def get_prop_def own_member_def
        key_missing_def truthy_opt_def truthy_def build_request_def or_else_def str_def)

text \<open>
  C4, amended. When the upstream endpoint answers with a status that is not a success, that
  is from 200 to 599 and is not 304, and the body text of the answer can be read, the
  handler classifies by the status alone: 429 gives the fixed rate-limit message and 401 or
  403 the fixed invalid-key message, whatever the body text; every other status gives the
  message \<^verbatim>\<open>API error (\<close>status\<^verbatim>\<open>): \<close>body text, with the status in
  its three decimal digits; and the handler's answer carries the upstream status. The
  first two hypotheses say that the handler has reached the upstream call with the request
  \<open>q\<close> and that the upstream answer is \<open>r\<close>.
\<close>

theorem upstream_failure_classified_by_status:
  assumes "before_fetch op (GEMINI_API_KEY env) request_json = Inr (Inr q)"
    and "upstream_fetch env q = Inr r"
    and "\<not> up_ok r"
    and "200 \<le> up_status r"
    and "up_status r \<le> 599"
    and "up_status r \<noteq> 304"
    and "up_text r = Inr errorText"
  shows "POST op env request_json =
           (Inr \<lparr>res_status = up_status r,
                 res_body = ErrorMessage
                   (if up_status r = 429 then
                      str ''Rate limit exceeded. Please wait a moment and try again.''
                    else if up_status r = 401 \<or> up_status r = 403 then
                      str ''Invalid API key. Please check your Gemini API key in Settings.''
                    else str ''API error (''
                           @ [of_nat (48 + up_status r div 100),
                              of_nat (48 + up_status r div 10 mod 10),
                              of_nat (48 + up_status r mod 10)]
                           @ str ''): '' @ errorText)\<rparr>,
            [q])"
proof -
  from assms(3,4,5,6) have n: "\<not> null_body_status (up_status r)"
    by (auto simp: null_body_status_def up_ok_def)
  from assms(4,5) have d: "decimal (up_status r) =
      [of_nat (48 + up_status r div 100), of_nat (48 + up_status r div 10 mod 10),
       of_nat (48 + up_status r mod 10)]"
    by (intro decimal_three_digits) simp_all
  from assms(1,2,3,7) show ?thesis
    by (simp add: POST_def handler_try_def after_fetch_def upstream_error_message_def d
          NextResponse_json_accepts [OF assms(4) assms(5) n])
qed

theorem upstream_failure_classified_by_status_witness:
  "POST Translate (upstream_answering 429 (str ''quota''))
          (Inr (JObject [(str ''text'', JString (str ''cat''))])) =
     (Inr \<lparr>res_status = 429,
           res_body = ErrorMessage
             (str ''Rate limit exceeded. Please wait a moment and try again.'')\<rparr>,
      [build_request Translate (str ''secret'') (JObject [(str ''text'', JString (str ''cat''))])
         (JString (str ''cat''))])
   \<and> fst (POST Explain (upstream_answering 403 (str ''denied''))
          (Inr (JObject [(str ''text'', JString (str ''cat''))]))) =
     Inr \<lparr>res_status = 403,
          res_body = ErrorMessage
            (str ''Invalid API key. Please check your Gemini API key in Settings.'')\<rparr>
   \<and> fst (POST Translate (upstream_answering 503 (str ''busy''))
          (Inr (JObject [(str ''text'', JString (str ''cat''))]))) =
     Inr \<lparr>res_status = 503, res_body = ErrorMessage (str ''API error (503): busy'')\<rparr>
   \<and> fst (POST Explain (upstream_answering 404 (str ''no model''))
          (Inr (JObject [(str ''text'', JString (str ''cat''))]))) =
     Inr \<lparr>res_status = 404, res_body = ErrorMessage (str ''API error (404): no model'')\<rparr>
   \<and> fst (POST Translate (upstream_answering 300 [])
          (Inr (JObject [(str ''text'', JString (str ''cat''))]))) =
     Inr \<lparr>res_status = 300, res_body = ErrorMessage (str ''API error (300): '')\<rparr>"
proof -
  let ?b = "JObject [(str ''text'', JString (str ''cat''))]"
  have b: "before_fetch op (GEMINI_API_KEY (upstream_answering n x)) (Inr ?b) =
             Inr (Inr (build_request op (str ''secret'') ?b (JString (str ''cat''))))" for op n x
    by (simp add: before_fetch_def upstream_answering_def get_prop_def own_member_def
          key_missing_def truthy_opt_def truthy_def build_request_def or_else_def str_def)
  have f: "upstream_fetch (upstream_answering n x) q =
             Inr \<lparr>up_status = n, up_text = Inr x, up_json = Inl SyntaxError\<rparr>" for n x q
    by (simp add: upstream_answering_def)
  have w: "POST op (upstream_answering n x) (Inr ?b) =
      (Inr \<lparr>res_status = n,
            res_body = ErrorMessage
              (if n = 429 then
                 str ''Rate limit exceeded. Please wait a moment and try again.''
               else if n = 401 \<or> n = 403 then
                 str ''Invalid API key. Please check your Gemini API key in Settings.''
               else str ''API error (''
                      @ [of_nat (48 + n div 100), of_nat (48 + n div 10 mod 10),
                         of_nat (48 + n mod 10)]
                      @ str ''): '' @ x)\<rparr>,
       [build_request op (str ''secret'') ?b (JString (str ''cat''))])"
    if "299 < n" and "n \<le> 599" and "n \<noteq> 304" for op n x
    using that
      upstream_failure_classified_by_status
        [where op = op and env = "upstream_answering n x" and request_json = "Inr ?b"
           and q = "build_request op (str ''secret'') ?b (JString (str ''cat''))"
           and r = "\<lparr>up_status = n, up_text = Inr x, up_json = Inl SyntaxError\<rparr>"
           and errorText = x]
    by (simp add: b f up_ok_def)
  have 1: "POST Translate (upstream_answering 429 (str ''quota'')) (Inr ?b) =
     (Inr \<lparr>res_status = 429,
           res_body = ErrorMessage
             (str ''Rate limit exceeded. Please wait a moment and try again.'')\<rparr>,
      [build_request Translate (str ''secret'') ?b (JString (str ''cat''))])"
    using w [of 429 Translate "str ''quota''"] by simp
  have 2: "fst (POST Explain (upstream_answering 403 (str ''denied'')) (Inr ?b)) =
     Inr \<lparr>res_status = 403,
          res_body = ErrorMessage
            (str ''Invalid API key. Please check your Gemini API key in Settings.'')\<rparr>"
    using w [of 403 Explain "str ''denied''"] by simp
  have 3: "fst (POST Translate (upstream_answering 503 (str ''busy'')) (Inr ?b)) =
     Inr \<lparr>res_status = 503, res_body = ErrorMessage (str ''API error (503): busy'')\<rparr>"
    using w [of 503 Translate "str ''busy''"] by (simp add: str_def)
  have 4: "fst (POST Explain (upstream_answering 404 (str ''no model'')) (Inr ?b)) =
     Inr \<lparr>res_status = 404, res_body = ErrorMessage (str ''API error (404): no model'')\<rparr>"
    using w [of 404 Explain "str ''no model''"] by (simp add: str_def)
  have 5: "fst (POST Translate (upstream_answering 300 []) (Inr ?b)) =
     Inr \<lparr>res_status = 300, res_body = ErrorMessage (str ''API error (300): '')\<rparr>"
    using w [of 300 Translate "[]"] by (simp add: str_def)
  from 1 2 3 4 5 show ?thesis by simp
qed

text \<open>
  The other upstream answers that are not a success: an unreadable body, the status 304
  and a status outside 200 to 599 are answered with status 500 and the exception's message.
\<close>

lemma other_upstream_failures_answered_with_500:
  assumes "before_fetch op (GEMINI_API_KEY env) request_json = Inr (Inr q)"
    and "upstream_fetch env q = Inr r"
    and "\<not> up_ok r"
  shows "up_text r = Inl e \<Longrightarrow>
           POST op env request_json = (Inr \<lparr>res_status = 500, res_body = ErrorCaught e\<rparr>, [q])"
    and "up_text r = Inr errorText \<Longrightarrow> up_status r = 304 \<Longrightarrow>
           POST op env request_json =
             (Inr \<lparr>res_status = 500, res_body = ErrorCaught TypeError\<rparr>, [q])"
    and "up_text r = Inr errorText \<Longrightarrow> up_status r < 200 \<or> 599 < up_status r \<Longrightarrow>
           POST op env request_json =
             (Inr \<lparr>res_status = 500, res_body = ErrorCaught RangeError\<rparr>, [q])"
  using assms
  by (auto simp: POST_def handler_try_def after_fetch_def NextResponse_json_def
        null_body_status_def)

text \<open>
  The check of the text is the handler's: under a configured key, a readable request whose
  text is missing or false (the empty string, \<^verbatim>\<open>null\<close>, ...) is answered with
  status 400 and no request is sent upstream.
\<close>

lemma missing_text_is_refused_by_the_handler:
  assumes "\<not> key_missing (GEMINI_API_KEY env)"
    and "get_prop b (str ''text'') = Inr t"
    and "\<not> truthy_opt t"
  shows "POST op env (Inr b) =
           (Inr \<lparr>res_status = 400, res_body = ErrorMessage (str ''Text required'')\<rparr>, [])"
  using assms
  by (simp add: POST_def handler_try_def before_fetch_def early_def NextResponse_json_fixed)

text \<open>
  A text of the model that the normalizer cannot parse is not an error of the handler: once
  the upstream answer is ok and holds a text, the handler answers with status 200 and the
  normalized result.
\<close>

lemma model_text_is_answered_with_200:
  assumes "before_fetch op (GEMINI_API_KEY env) request_json = Inr (Inr q)"
    and "upstream_fetch env q = Inr r"
    and "up_ok r"
    and "up_json r = Inr data"
    and "error_message data = None"
    and "result_text data = Some resultText"
    and "resultText \<noteq> []"
  shows "\<exists>parsed. normalizer op resultText = Inr parsed
           \<and> POST op env request_json =
               (Inr \<lparr>res_status = 200, res_body = Normalized parsed\<rparr>, [q])"
proof -
  have "\<exists>parsed. normalizer op resultText = Inr parsed"
    by (cases op)
       (simp_all add: normalizer_def parseTranslationResponse_def parseExplanationResponse_def
          parseResponse_returns)
  then obtain parsed where "normalizer op resultText = Inr parsed" ..
  with assms show ?thesis
    by (simp add: POST_def handler_try_def after_fetch_def NextResponse_json_fixed)
qed

text \<open>
  C5 does not hold for every request. The handler reads the request body first
  (\<^verbatim>\<open>await request.json()\<close>): when that throws, or the body is
  \<^verbatim>\<open>null\<close>, the \<^verbatim>\<open>catch\<close> block answers with the exception's message,
  not with the missing-key message.
\<close>

theorem unreadable_request_is_not_missing_credential:
  "fst (POST Translate keyless (Inl SyntaxError)) =
     Inr \<lparr>res_status = 500, res_body = ErrorCaught SyntaxError\<rparr>
   \<and> fst (POST Translate keyless (Inl SyntaxError)) \<noteq>
     Inr \<lparr>res_status = 500, res_body = ErrorMessage
        (str ''GEMINI_API_KEY is not configured. Please set it in .env.local'')\<rparr>
   \<and> fst (POST Explain keyless (Inr JNull)) =
     Inr \<lparr>res_status = 500, res_body = ErrorCaught TypeError\<rparr>"
  by (simp add: POST_def handler_try_def before_fetch_def NextResponse_json_fixed get_prop_def)

text \<open>
  C5, amended. While the key is unset (or empty), every request is answered with status
  500 and no request is sent upstream; and every request whose body is read as a JSON value
  other than \<^verbatim>\<open>null\<close> is answered with the missing-key message, before the text
  is looked at.
\<close>

theorem missing_key_answers_500_without_upstream_call:
  assumes "key_missing (GEMINI_API_KEY env)"
  shows "(\<exists>body. fst (POST op env request_json) = Inr \<lparr>res_status = 500, res_body = body\<rparr>)
       \<and> snd (POST op env request_json) = []
       \<and> (\<forall>b. request_json = Inr b \<and> b \<noteq> JNull \<longrightarrow>
            fst (POST op env request_json) =
              Inr \<lparr>res_status = 500, res_body = ErrorMessage
                 (str ''GEMINI_API_KEY is not configured. Please set it in .env.local'')\<rparr>)"
  using assms
  by (auto simp: POST_def handler_try_def before_fetch_def early_def NextResponse_json_fixed
        get_prop_def split: sum.splits json.splits)

theorem missing_key_answers_500_without_upstream_call_witness:
  "key_missing (GEMINI_API_KEY keyless)
   \<and> POST Translate keyless (Inr (JObject [])) =
       (Inr \<lparr>res_status = 500, res_body = ErrorMessage
           (str ''GEMINI_API_KEY is not configured. Please set it in .env.local'')\<rparr>, [])
   \<and> POST Explain keyless (Inr (JObject [(str ''text'', JString (str ''cat''))])) =
       (Inr \<lparr>res_status = 500, res_body = ErrorMessage
           (str ''GEMINI_API_KEY is not configured. Please set it in .env.local'')\<rparr>, [])
   \<and> (\<exists>body. fst (POST Translate keyless (Inl SyntaxError)) =
         Inr \<lparr>res_status = 500, res_body = body\<rparr>)
   \<and> snd (POST Translate keyless (Inl SyntaxError)) = []"
proof -
  have k: "key_missing (GEMINI_API_KEY keyless)"
    by (simp add: keyless_def key_missing_def)
  from missing_key_answers_500_without_upstream_call [OF k, of Translate "Inr (JObject [])"]
  have 1: "POST Translate keyless (Inr (JObject [])) =
       (Inr \<lparr>res_status = 500, res_body = ErrorMessage
           (str ''GEMINI_API_KEY is not configured. Please set it in .env.local'')\<rparr>, [])"
    by (simp add: prod_eq_iff)
  from missing_key_answers_500_without_upstream_call
         [OF k, of Explain "Inr (JObject [(str ''text'', JString (str ''cat''))])"]
  have 2: "POST Explain keyless (Inr (JObject [(str ''text'', JString (str ''cat''))])) =
       (Inr \<lparr>res_status = 500, res_body = ErrorMessage
           (str ''GEMINI_API_KEY is not configured. Please set it in .env.local'')\<rparr>, [])"
    by (simp add: prod_eq_iff)
  from missing_key_answers_500_without_upstream_call [OF k, of Translate "Inl SyntaxError"]
  have 3: "(\<exists>body. fst (POST Translate keyless (Inl SyntaxError)) =
         Inr \<lparr>res_status = 500, res_body = body\<rparr>)
       \<and> snd (POST Translate keyless (Inl SyntaxError)) = []"
    by simp
  from k 1 2 3 show ?thesis by simp
qed

section \<open>Properties of the client dispatchers\<close>

text \<open>
  C3 does not hold of the code: neither dispatcher looks at its text argument before the
  request. With an empty text and a backend that refuses it, each dispatcher has sent one
  request and throws the backend's error.
\<close>

theorem empty_text_is_sent_to_the_backend:
  "translateWithGemini backend_refusing [] [] [] None =
     (Inl (Error (JString (str ''Text required''))),
      [\<lparr>cr_url = str ''/api/gemini/translate'',
        cr_body = request_body [] [] [] (JString (str ''gemini-2.0-flash''))\<rparr>])
   \<and> explainDirectly backend_refusing [] [] [] None =
     (Inl (Error (JString (str ''Text required''))),
      [\<lparr>cr_url = str ''/api/gemini/explain'',
        cr_body = request_body [] [] [] (JString (str ''gemini-2.0-flash''))\<rparr>])
   \<and> length (snd (translateWithGemini backend_refusing [] [] [] None)) = 1
   \<and> length (snd (explainDirectly backend_refusing [] [] [] None)) = 1"
  by (simp add: translateWithGemini_def explainDirectly_def dispatch_def backend_refusing_def
        getGeminiSettings_def DEFAULT_GEMINI_SETTINGS_def DEFAULT_GEMINI_MODEL_def
        DEFAULT_GEMINI_EXPLANATION_MODEL_def override_or_def get_prop_def own_member_def
        or_else_def truthy_def str_def)

text \<open>
  C3, amended. For every call of a dispatcher, with an empty text or not, exactly one
  request is sent, to the dispatcher's endpoint, with the text as given in its body: there
  is no local check of the text and no failure before the request.
\<close>

theorem dispatcher_always_sends_one_request:
  "snd (translateWithGemini env text contextBefore contextAfter modelOverride) =
     [\<lparr>cr_url = str ''/api/gemini/translate'',
       cr_body = request_body text contextBefore contextAfter
                   (override_or modelOverride
                      (model (getGeminiSettings (client_browser env))))\<rparr>]
   \<and> snd (explainDirectly env text contextBefore contextAfter modelOverride) =
     [\<lparr>cr_url = str ''/api/gemini/explain'',
       cr_body = request_body text contextBefore contextAfter
                   (override_or modelOverride
                      (explanationModel (getGeminiSettings (client_browser env))))\<rparr>]"
  by (simp add: translateWithGemini_def explainDirectly_def dispatch_def Let_def
           split: sum.splits)

section \<open>Properties of the context menu\<close>

text \<open>
  C8. For every contextmenu event fired while the window holds a selection that is not
  collapsed, whose trimmed text is not empty and whose range's common ancestor container is
  contained in the existing viewer container, \<^verbatim>\<open>handleContextMenu\<close> calls
  \<^verbatim>\<open>preventDefault\<close> and sets the position to the event's
  \<^verbatim>\<open>clientX\<close> and \<^verbatim>\<open>clientY\<close>.
\<close>

theorem selection_in_viewer_opens_menu:
  assumes "getSelection doc = Some sel"
    and "\<not> isCollapsed sel"
    and "trim (sel_string sel) \<noteq> []"
    and "range0_container sel = Some container"
    and "pdf_viewer_container doc = Some pdfViewer"
    and "node_contains doc pdfViewer container"
  shows "handleContextMenu doc e contextMenuPosition =
           Inr (Some \<lparr>pos_x = clientX e, pos_y = clientY e\<rparr>, True)"
  using assms by (simp add: handleContextMenu_def)

theorem selection_in_viewer_opens_menu_witness:
  "getSelection viewer_document =
     Some \<lparr>isCollapsed = False, sel_string = str '' harness '', range0_container = Some 2\<rparr>
   \<and> trim (str '' harness '') = str ''harness''
   \<and> pdf_viewer_container viewer_document = Some 1
   \<and> node_contains viewer_document 1 2
   \<and> handleContextMenu viewer_document \<lparr>clientX = 120, clientY = 45\<rparr> None =
       Inr (Some \<lparr>pos_x = 120, pos_y = 45\<rparr>, True)"
proof -
  let ?sel = "\<lparr>isCollapsed = False, sel_string = str '' harness '', range0_container = Some (2::nat)\<rparr>"
  have s: "getSelection viewer_document = Some ?sel"
    by (simp add: viewer_document_def)
  have c: "\<not> isCollapsed ?sel" by simp
  have t: "trim (str '' harness '') = str ''harness''"
    by code_simp
  then have t': "trim (sel_string ?sel) \<noteq> []"
    by (simp add: str_def)
  have r: "range0_container ?sel = Some 2" by simp
  have v: "pdf_viewer_container viewer_document = Some 1"
    by (simp add: viewer_document_def)
  have n: "node_contains viewer_document 1 2"
    by (simp add: viewer_document_def)
  from selection_in_viewer_opens_menu
         [OF s c t' r v n, of "\<lparr>clientX = 120, clientY = 45\<rparr>" None]
  have "handleContextMenu viewer_document \<lparr>clientX = 120, clientY = 45\<rparr> None =
       Inr (Some \<lparr>pos_x = 120, pos_y = 45\<rparr>, True)"
    by simp
  with s t v n show ?thesis by simp
qed

text \<open>
  C9 does not hold of the code: the body of \<^verbatim>\<open>closeContextMenu\<close> is empty, so
  an open menu's position is still there after the call. Only the second half holds:
  on a closed menu the call changes nothing.
\<close>

theorem closeContextMenu_keeps_position:
  "closeContextMenu (Some \<lparr>pos_x = 120, pos_y = 45\<rparr>) = Some \<lparr>pos_x = 120, pos_y = 45\<rparr>
   \<and> closeContextMenu None = None"
  by (simp add: closeContextMenu_def)

end
